theory Spec2Isabelle
  imports Main
begin

section \<open>The dispatcher: \<^verbatim>\<open>lib/contracts/Contract.ts\<close>\<close>

subsection \<open>Values, errors and strategies\<close>

text \<open>
  The handlers of a contract are JavaScript functions: they are called with the account
  information and the contract input, a composed handler passes the result of the handler it
  wraps as a third argument, and a call either returns a value or throws.  A parameter that
  the caller does not pass is \<^verbatim>\<open>undefined\<close>, so a strategy is a function of three
  arguments and a two-argument call passes \<open>JSUndefined\<close>.

  \<open>'o\<close> stands for the objects that flow through the dispatcher (account information,
  \<^verbatim>\<open>Outputs\<close>), \<open>'p\<close> for the primitive values other than strings and booleans;
  \<open>JSObjectOf v\<close> is the object \<^verbatim>\<open>Object(v)\<close> made from a value \<open>v\<close> that is not an
  object.
\<close>

datatype ('p, 'o) jsval =
    JSUndefined
  | JSNull
  | JSBool bool
  | JSString string
  | JSPrimitive 'p
  | JSObject 'o
  | JSObjectOf "('p, 'o) jsval"

text \<open>
  \<open>Error msg\<close> is \<^verbatim>\<open>new Error(msg)\<close>; \<open>TypeError\<close> is the error the engine throws
  when a value that is not a function is called or when \<^verbatim>\<open>undefined\<close> is converted to
  an object.
\<close>

datatype js_error = Error string | TypeError

record 'c ContractInput =
  contractFn :: string
  params :: 'c

type_synonym ('p, 'o, 'c) strategy =
  "('p, 'o) jsval \<Rightarrow> 'c ContractInput \<Rightarrow> ('p, 'o) jsval \<Rightarrow> js_error + ('p, 'o) jsval"

text \<open>What the expression \<^verbatim>\<open>this.methodStrategies[name]\<close> evaluates to.\<close>

datatype ('p, 'o, 'c) property =
    Absent
  | Fn "('p, 'o, 'c) strategy"
  | NotCallable

fun truthy :: "('p, 'o, 'c) property \<Rightarrow> bool" where
  "truthy Absent = False"
| "truthy (Fn f) = True"
| "truthy NotCallable = True"

text \<open>The call \<^verbatim>\<open>strategy(accountInfo, contractInput)\<close>, with two arguments.\<close>

fun call2 ::
  "('p, 'o, 'c) property \<Rightarrow> ('p, 'o) jsval \<Rightarrow> 'c ContractInput \<Rightarrow> js_error + ('p, 'o) jsval"
where
  "call2 (Fn f) accountInfo contractInput = f accountInfo contractInput JSUndefined"
| "call2 NotCallable accountInfo contractInput = Inl TypeError"
| "call2 Absent accountInfo contractInput = Inl TypeError"

subsection \<open>The table object and what it inherits\<close>

text \<open>
  The constructor sets \<^verbatim>\<open>this.methodStrategies = {}\<close>: an ordinary object, whose
  prototype is \<^verbatim>\<open>Object.prototype\<close>.  The read \<^verbatim>\<open>this.methodStrategies[name]\<close> finds
  an own property first and a member of \<^verbatim>\<open>Object.prototype\<close> otherwise.  The members are
  called by the dispatcher as plain functions, that is with \<^verbatim>\<open>this\<close> undefined (class
  bodies are strict code):
  \<^item> \<^verbatim>\<open>toString\<close> returns \<^verbatim>\<open>"[object Undefined]"\<close>;
  \<^item> \<^verbatim>\<open>constructor\<close> is \<^verbatim>\<open>Object\<close>, which returns its first argument as an object;
  \<^item> \<^verbatim>\<open>isPrototypeOf\<close> returns \<^verbatim>\<open>false\<close> for an argument that is not an object and
    otherwise converts \<^verbatim>\<open>this\<close> to an object, which throws;
  \<^item> the other functions convert \<^verbatim>\<open>this\<close> to an object, which throws (for
    \<^verbatim>\<open>hasOwnProperty\<close> and \<^verbatim>\<open>propertyIsEnumerable\<close> after the conversion of the
    first argument to a property key, taken to complete: the account information is data);
  \<^item> \<^verbatim>\<open>__proto__\<close> reads as \<^verbatim>\<open>Object.prototype\<close> itself, an object that is not a
    function.
\<close>

definition Object_constructor :: "('p, 'o) jsval \<Rightarrow> ('p, 'o) jsval" where
  "Object_constructor v =
     (case v of JSObject ob \<Rightarrow> JSObject ob | JSObjectOf w \<Rightarrow> JSObjectOf w | _ \<Rightarrow> JSObjectOf v)"

definition is_object :: "('p, 'o) jsval \<Rightarrow> bool" where
  "is_object v = (case v of JSObject ob \<Rightarrow> True | JSObjectOf w \<Rightarrow> True | _ \<Rightarrow> False)"

definition this_to_object_members :: "string list" where
  "this_to_object_members =
     [''valueOf'', ''toLocaleString'', ''hasOwnProperty'', ''propertyIsEnumerable'',
      ''__defineGetter__'', ''__defineSetter__'', ''__lookupGetter__'', ''__lookupSetter__'']"

definition Object_prototype :: "string \<Rightarrow> ('p, 'o, 'c) property" where
  "Object_prototype name =
     (if name = ''toString'' then Fn (\<lambda>a ci x. Inr (JSString ''[object Undefined]''))
      else if name = ''constructor'' then Fn (\<lambda>a ci x. Inr (Object_constructor a))
      else if name = ''isPrototypeOf''
        then Fn (\<lambda>a ci x. if is_object a then Inl TypeError else Inr (JSBool False))
      else if name \<in> set this_to_object_members then Fn (\<lambda>a ci x. Inl TypeError)
      else if name = ''__proto__'' then NotCallable
      else Absent)"

text \<open>
  The contract's state is the table of the properties that were assigned to
  \<^verbatim>\<open>methodStrategies\<close>.  An assignment \<^verbatim>\<open>this.methodStrategies[name] = f\<close> makes a
  later read of the same name yield \<open>f\<close> (for \<^verbatim>\<open>__proto__\<close> as well, where the
  assignment installs \<open>f\<close> as the prototype and the read returns the prototype).  What a
  contract on which \<^verbatim>\<open>__proto__\<close> was assigned inherits under the \<^emph>\<open>other\<close> names
  depends on the function object installed and is not modelled: for such a contract the
  lookup below is exact at the names that were assigned.
\<close>

record ('p, 'o, 'c) Contract =
  methodStrategies :: "string \<rightharpoonup> ('p, 'o, 'c) strategy"

definition Contract_new :: "('p, 'o, 'c) Contract" where
  "Contract_new = \<lparr> methodStrategies = Map.empty \<rparr>"

definition lookup_strategy :: "('p, 'o, 'c) Contract \<Rightarrow> string \<Rightarrow> ('p, 'o, 'c) property" where
  "lookup_strategy c name =
     (case methodStrategies c name of Some f \<Rightarrow> Fn f | None \<Rightarrow> Object_prototype name)"

subsection \<open>The methods\<close>

definition executeMethod ::
  "('p, 'o, 'c) Contract \<Rightarrow> ('p, 'o) jsval \<Rightarrow> 'c ContractInput \<Rightarrow> js_error + ('p, 'o) jsval"
where
  "executeMethod c accountInfo contractInput =
     (let strategy = lookup_strategy c (contractFn contractInput)
      in if truthy strategy then call2 strategy accountInfo contractInput
         else Inl (Error (''Unknown method: '' @ contractFn contractInput)))"

record ('p, 'o, 'c) Input =
  accountInfo :: "('p, 'o) jsval"
  contractInput :: "'c ContractInput"

definition start :: "('p, 'o, 'c) Contract \<Rightarrow> ('p, 'o, 'c) Input \<Rightarrow> js_error + ('p, 'o) jsval" where
  "start c input = executeMethod c (accountInfo input) (contractInput input)"

text \<open>
  The composed handler is an arrow function of two parameters: it calls the original strategy
  with two arguments, and an exception of the original strategy leaves it before the new
  strategy is called.
\<close>

definition composed ::
  "('p, 'o, 'c) property \<Rightarrow> ('p, 'o, 'c) strategy \<Rightarrow> ('p, 'o, 'c) strategy"
where
  "composed originalStrategy newStrategyFn =
     (\<lambda>accountInfo contractInput unused.
        case call2 originalStrategy accountInfo contractInput of
          Inl e \<Rightarrow> Inl e
        | Inr originalResult \<Rightarrow> newStrategyFn accountInfo contractInput originalResult)"

definition addOrExtendMethodStrategy ::
  "string \<Rightarrow> ('p, 'o, 'c) strategy \<Rightarrow> bool \<Rightarrow> ('p, 'o, 'c) Contract \<Rightarrow> ('p, 'o, 'c) Contract"
where
  "addOrExtendMethodStrategy methodName newStrategyFn extend_arg c =
     (if extend_arg \<and> truthy (lookup_strategy c methodName)
      then let originalStrategy = lookup_strategy c methodName
           in c\<lparr>methodStrategies :=
                  (methodStrategies c)(methodName \<mapsto> composed originalStrategy newStrategyFn)\<rparr>
      else c\<lparr>methodStrategies := (methodStrategies c)(methodName \<mapsto> newStrategyFn)\<rparr>)"

section \<open>The builders of \<^verbatim>\<open>lib/programs/instruction-builders/builders\<close>\<close>

subsection \<open>The values the builders hold and produce\<close>

text \<open>
  Modelled from the spec: the classes the builders import (\<^verbatim>\<open>Address\<close>,
  \<^verbatim>\<open>AddressOrNamespace\<close>, \<^verbatim>\<open>TokenDistribution\<close>, the instruction classes,
  \<^verbatim>\<open>Outputs\<close>), which are declared outside the files at hand.  Each is a value with
  the attributes the data model of the spec lists for it, and its constructor stores the
  arguments it is given: a record of those arguments, in the order in which the builders
  pass them.
\<close>

datatype Address = Address string

datatype AddressOrNamespace = OfAddress Address | OfNamespace string

text \<open>The identity wire shape: \<^verbatim>\<open>{ address: s }\<close> or \<^verbatim>\<open>{ namespace: s }\<close>.\<close>

datatype identity_json = AddressJson string | NamespaceJson string

text \<open>
  Modelled from the spec: \<^verbatim>\<open>AddressOrNamespace.toJson\<close>, whose class is not among the
  files; its serialization emits exactly one of \<^verbatim>\<open>{"address": ...}\<close> or
  \<^verbatim>\<open>{"namespace": ...}\<close>.
\<close>

fun AddressOrNamespace_toJson :: "AddressOrNamespace \<Rightarrow> identity_json" where
  "AddressOrNamespace_toJson (OfAddress (Address s)) = AddressJson s"
| "AddressOrNamespace_toJson (OfNamespace s) = NamespaceJson s"

text \<open>
  A value held under the static type \<^verbatim>\<open>AddressOrNamespace\<close>.
  \<^verbatim>\<open>TokenDistributionBuilder.build\<close> tests \<^verbatim>\<open>instanceof AddressOrNamespace\<close> and casts
  the result of \<^verbatim>\<open>toJson\<close> back to the class type, so such a value is either an instance
  of the class (the wrapper object) or a plain object of the wire shape.
\<close>

datatype identity_value = Instance AddressOrNamespace | Plain identity_json

fun is_wrapper :: "identity_value option \<Rightarrow> bool" where
  "is_wrapper (Some (Instance x)) = True"
| "is_wrapper (Some (Plain j)) = False"
| "is_wrapper None = False"

record 'j TokenDistribution =
  td_programId :: "identity_value option"
  td_to :: "identity_value option"
  td_amount :: "string option"
  td_tokenIds :: "string list"
  td_updateFields :: "'j list"

record 'j CreateInstruction =
  ci_programNamespace :: "identity_value option"
  ci_programId :: "identity_value option"
  ci_programOwner :: "Address option"
  ci_totalSupply :: "string option"
  ci_initializedSupply :: "string option"
  ci_distribution :: "'j TokenDistribution list"

record 't UpdateInstruction =
  ui_updates :: "'t list"

record TransferInstruction =
  ti_token :: "Address option"
  ti_from :: "identity_value option"
  ti_to :: "identity_value option"
  ti_amount :: "string option"
  ti_ids :: "string list"

record BurnInstruction =
  bi_caller :: "Address option"
  bi_programId :: "identity_value option"
  bi_token :: "Address option"
  bi_burnFrom :: "identity_value option"
  bi_amount :: "string option"
  bi_tokenIds :: "string list"

datatype ('j, 't) payload =
    Create "'j CreateInstruction"
  | Update "'t UpdateInstruction"
  | Transfer TransferInstruction
  | Burn BurnInstruction

text \<open>\<^verbatim>\<open>new Instruction(kind, value)\<close>.\<close>

record ('j, 't) Instruction =
  kind :: string
  val :: "('j, 't) payload"

text \<open>
  Modelled from the spec: \<^verbatim>\<open>Instruction.toJson\<close>, whose class is not among the files;
  the instruction wire shape is \<^verbatim>\<open>{ <tag>: <payload> }\<close>, an object with one key.  An
  object is the list of its keys with their values.
\<close>

definition Instruction_toJson :: "('j, 't) Instruction \<Rightarrow> (string \<times> ('j, 't) payload) list" where
  "Instruction_toJson i = [(kind i, val i)]"

definition object_keys :: "(string \<times> 'v) list \<Rightarrow> string list" where
  "object_keys ob = map fst ob"

text \<open>\<^verbatim>\<open>new Outputs(inputs, instructions)\<close>; \<open>None\<close> is \<^verbatim>\<open>null\<close>.\<close>

record ('i, 'j, 't) Outputs =
  inputs :: "'i option"
  instructions :: "('j, 't) Instruction list"

subsection \<open>TokenUpdateBuilder\<close>

text \<open>
  A builder is the record of its private fields; a setter returns the builder with the field
  assigned (\<^verbatim>\<open>return this\<close>), and \<^verbatim>\<open>xs.push(...items)\<close> appends \<open>items\<close> to \<open>xs\<close>.
  Lists are values here: that \<^verbatim>\<open>build\<close> hands the builder's own array to the instruction
  it returns, where it does, is not visible in the model.
\<close>

record 't TokenUpdateBuilder =
  tub_account :: "identity_value option"
  tub_token :: "identity_value option"
  tub_updates :: "'t list"

definition TokenUpdateBuilder_new :: "'t TokenUpdateBuilder" where
  "TokenUpdateBuilder_new = \<lparr> tub_account = None, tub_token = None, tub_updates = [] \<rparr>"

definition TokenUpdateBuilder_addUpdateAccountAddress ::
  "identity_value \<Rightarrow> 't TokenUpdateBuilder \<Rightarrow> 't TokenUpdateBuilder" where
  "TokenUpdateBuilder_addUpdateAccountAddress account b = b\<lparr>tub_account := Some account\<rparr>"

definition TokenUpdateBuilder_addTokenAddress ::
  "identity_value \<Rightarrow> 't TokenUpdateBuilder \<Rightarrow> 't TokenUpdateBuilder" where
  "TokenUpdateBuilder_addTokenAddress tokenAddress b = b\<lparr>tub_token := Some tokenAddress\<rparr>"

definition TokenUpdateBuilder_addUpdateField ::
  "'t \<Rightarrow> 't TokenUpdateBuilder \<Rightarrow> 't TokenUpdateBuilder" where
  "TokenUpdateBuilder_addUpdateField updateField b = b\<lparr>tub_updates := tub_updates b @ [updateField]\<rparr>"

definition TokenUpdateBuilder_build :: "'t TokenUpdateBuilder \<Rightarrow> ('j, 't) Instruction" where
  "TokenUpdateBuilder_build b =
     \<lparr> kind = ''update'', val = Update \<lparr> ui_updates = map (\<lambda>update. update) (tub_updates b) \<rparr> \<rparr>"

subsection \<open>TokenDistributionBuilder\<close>

record 'u TokenDistributionBuilder =
  tdb_programId :: "identity_value option"
  tdb_to :: "identity_value option"
  tdb_amount :: "string option"
  tdb_tokenIds :: "string list"
  tdb_updateFields :: "'u list"

definition TokenDistributionBuilder_new :: "'u TokenDistributionBuilder" where
  "TokenDistributionBuilder_new =
     \<lparr> tdb_programId = None, tdb_to = None, tdb_amount = None, tdb_tokenIds = [],
       tdb_updateFields = [] \<rparr>"

definition TokenDistributionBuilder_setProgramId ::
  "identity_value \<Rightarrow> 'u TokenDistributionBuilder \<Rightarrow> 'u TokenDistributionBuilder" where
  "TokenDistributionBuilder_setProgramId programId b = b\<lparr>tdb_programId := Some programId\<rparr>"

definition TokenDistributionBuilder_setReceiver ::
  "identity_value \<Rightarrow> 'u TokenDistributionBuilder \<Rightarrow> 'u TokenDistributionBuilder" where
  "TokenDistributionBuilder_setReceiver receiver b = b\<lparr>tdb_to := Some receiver\<rparr>"

definition TokenDistributionBuilder_setAmount ::
  "string \<Rightarrow> 'u TokenDistributionBuilder \<Rightarrow> 'u TokenDistributionBuilder" where
  "TokenDistributionBuilder_setAmount amount b = b\<lparr>tdb_amount := Some amount\<rparr>"

definition TokenDistributionBuilder_addTokenId ::
  "string \<Rightarrow> 'u TokenDistributionBuilder \<Rightarrow> 'u TokenDistributionBuilder" where
  "TokenDistributionBuilder_addTokenId tokenId b = b\<lparr>tdb_tokenIds := tdb_tokenIds b @ [tokenId]\<rparr>"

definition TokenDistributionBuilder_extendTokenIds ::
  "string list \<Rightarrow> 'u TokenDistributionBuilder \<Rightarrow> 'u TokenDistributionBuilder" where
  "TokenDistributionBuilder_extendTokenIds items b = b\<lparr>tdb_tokenIds := tdb_tokenIds b @ items\<rparr>"

definition TokenDistributionBuilder_addUpdateField ::
  "'u \<Rightarrow> 'u TokenDistributionBuilder \<Rightarrow> 'u TokenDistributionBuilder" where
  "TokenDistributionBuilder_addUpdateField updateField b =
     b\<lparr>tdb_updateFields := tdb_updateFields b @ [updateField]\<rparr>"

definition TokenDistributionBuilder_extendUpdateFields ::
  "'u list \<Rightarrow> 'u TokenDistributionBuilder \<Rightarrow> 'u TokenDistributionBuilder" where
  "TokenDistributionBuilder_extendUpdateFields items b =
     b\<lparr>tdb_updateFields := tdb_updateFields b @ items\<rparr>"

text \<open>
  \<^verbatim>\<open>x instanceof AddressOrNamespace ? x.toJson() : x ?? null\<close>, for a field \<open>x\<close>.
\<close>

fun normalize_identity :: "identity_value option \<Rightarrow> identity_value option" where
  "normalize_identity (Some (Instance x)) = Some (Plain (AddressOrNamespace_toJson x))"
| "normalize_identity (Some (Plain j)) = Some (Plain j)"
| "normalize_identity None = None"

text \<open>
  \<open>toJson\<close> is \<^verbatim>\<open>TokenUpdateField.toJson\<close>, of a class that is not among the files: a
  parameter.
\<close>

definition TokenDistributionBuilder_build ::
  "('u \<Rightarrow> 'j) \<Rightarrow> 'u TokenDistributionBuilder \<Rightarrow> 'j TokenDistribution" where
  "TokenDistributionBuilder_build toJson b =
     (let programId = normalize_identity (tdb_programId b);
          to = normalize_identity (tdb_to b)
      in \<lparr> td_programId = programId, td_to = to, td_amount = tdb_amount b,
           td_tokenIds = map (\<lambda>tokenId. tokenId) (tdb_tokenIds b),
           td_updateFields = map (\<lambda>updateField. toJson updateField) (tdb_updateFields b) \<rparr>)"

subsection \<open>CreateInstructionBuilder\<close>

record 'j CreateInstructionBuilder =
  cib_programNamespace :: "identity_value option"
  cib_programId :: "identity_value option"
  cib_programOwner :: "Address option"
  cib_totalSupply :: "string option"
  cib_initializedSupply :: "string option"
  cib_distribution :: "'j TokenDistribution list"

definition CreateInstructionBuilder_new :: "'j CreateInstructionBuilder" where
  "CreateInstructionBuilder_new =
     \<lparr> cib_programNamespace = None, cib_programId = None, cib_programOwner = None,
       cib_totalSupply = None, cib_initializedSupply = None, cib_distribution = [] \<rparr>"

definition CreateInstructionBuilder_setProgramNamespace ::
  "identity_value \<Rightarrow> 'j CreateInstructionBuilder \<Rightarrow> 'j CreateInstructionBuilder" where
  "CreateInstructionBuilder_setProgramNamespace programNamespace b =
     b\<lparr>cib_programNamespace := Some programNamespace\<rparr>"

definition CreateInstructionBuilder_setProgramId ::
  "identity_value \<Rightarrow> 'j CreateInstructionBuilder \<Rightarrow> 'j CreateInstructionBuilder" where
  "CreateInstructionBuilder_setProgramId programId b = b\<lparr>cib_programId := Some programId\<rparr>"

definition CreateInstructionBuilder_setProgramOwner ::
  "Address \<Rightarrow> 'j CreateInstructionBuilder \<Rightarrow> 'j CreateInstructionBuilder" where
  "CreateInstructionBuilder_setProgramOwner programOwner b =
     b\<lparr>cib_programOwner := Some programOwner\<rparr>"

definition CreateInstructionBuilder_setTotalSupply ::
  "string \<Rightarrow> 'j CreateInstructionBuilder \<Rightarrow> 'j CreateInstructionBuilder" where
  "CreateInstructionBuilder_setTotalSupply totalSupply b = b\<lparr>cib_totalSupply := Some totalSupply\<rparr>"

definition CreateInstructionBuilder_setInitializedSupply ::
  "string \<Rightarrow> 'j CreateInstructionBuilder \<Rightarrow> 'j CreateInstructionBuilder" where
  "CreateInstructionBuilder_setInitializedSupply initializedSupply b =
     b\<lparr>cib_initializedSupply := Some initializedSupply\<rparr>"

definition CreateInstructionBuilder_addTokenDistribution ::
  "'j TokenDistribution \<Rightarrow> 'j CreateInstructionBuilder \<Rightarrow> 'j CreateInstructionBuilder" where
  "CreateInstructionBuilder_addTokenDistribution tokenDistribution b =
     b\<lparr>cib_distribution := cib_distribution b @ [tokenDistribution]\<rparr>"

definition CreateInstructionBuilder_extendTokenDistribution ::
  "'j TokenDistribution list \<Rightarrow> 'j CreateInstructionBuilder \<Rightarrow> 'j CreateInstructionBuilder" where
  "CreateInstructionBuilder_extendTokenDistribution items b =
     b\<lparr>cib_distribution := cib_distribution b @ items\<rparr>"

definition CreateInstructionBuilder_build :: "'j CreateInstructionBuilder \<Rightarrow> ('j, 't) Instruction" where
  "CreateInstructionBuilder_build b =
     \<lparr> kind = ''create'',
       val = Create \<lparr> ci_programNamespace = cib_programNamespace b,
                      ci_programId = cib_programId b,
                      ci_programOwner = cib_programOwner b,
                      ci_totalSupply = cib_totalSupply b,
                      ci_initializedSupply = cib_initializedSupply b,
                      ci_distribution = cib_distribution b \<rparr> \<rparr>"

subsection \<open>UpdateInstructionBuilder\<close>

record 't UpdateInstructionBuilder =
  uib_updates :: "'t list"

definition UpdateInstructionBuilder_new :: "'t UpdateInstructionBuilder" where
  "UpdateInstructionBuilder_new = \<lparr> uib_updates = [] \<rparr>"

definition UpdateInstructionBuilder_addUpdate ::
  "'t \<Rightarrow> 't UpdateInstructionBuilder \<Rightarrow> 't UpdateInstructionBuilder" where
  "UpdateInstructionBuilder_addUpdate update b = b\<lparr>uib_updates := uib_updates b @ [update]\<rparr>"

definition UpdateInstructionBuilder_extendUpdates ::
  "'t list \<Rightarrow> 't UpdateInstructionBuilder \<Rightarrow> 't UpdateInstructionBuilder" where
  "UpdateInstructionBuilder_extendUpdates items b = b\<lparr>uib_updates := uib_updates b @ items\<rparr>"

definition UpdateInstructionBuilder_build :: "'t UpdateInstructionBuilder \<Rightarrow> ('j, 't) Instruction" where
  "UpdateInstructionBuilder_build b =
     \<lparr> kind = ''update'', val = Update \<lparr> ui_updates = uib_updates b \<rparr> \<rparr>"

subsection \<open>TransferInstructionBuilder\<close>

record TransferInstructionBuilder =
  trb_token :: "Address option"
  trb_transferFrom :: "identity_value option"
  trb_transferTo :: "identity_value option"
  trb_amount :: "string option"
  trb_ids :: "string list"

definition TransferInstructionBuilder_new :: TransferInstructionBuilder where
  "TransferInstructionBuilder_new =
     \<lparr> trb_token = None, trb_transferFrom = None, trb_transferTo = None, trb_amount = None,
       trb_ids = [] \<rparr>"

definition TransferInstructionBuilder_setTokenAddress ::
  "Address \<Rightarrow> TransferInstructionBuilder \<Rightarrow> TransferInstructionBuilder" where
  "TransferInstructionBuilder_setTokenAddress tokenAddress b = b\<lparr>trb_token := Some tokenAddress\<rparr>"

definition TransferInstructionBuilder_setTransferFrom ::
  "identity_value \<Rightarrow> TransferInstructionBuilder \<Rightarrow> TransferInstructionBuilder" where
  "TransferInstructionBuilder_setTransferFrom transferFrom b =
     b\<lparr>trb_transferFrom := Some transferFrom\<rparr>"

definition TransferInstructionBuilder_setTransferTo ::
  "identity_value \<Rightarrow> TransferInstructionBuilder \<Rightarrow> TransferInstructionBuilder" where
  "TransferInstructionBuilder_setTransferTo transferTo b = b\<lparr>trb_transferTo := Some transferTo\<rparr>"

text \<open>The amount of a transfer is \<^verbatim>\<open>string | null\<close>: the setter may store \<^verbatim>\<open>null\<close>.\<close>

definition TransferInstructionBuilder_setAmount ::
  "string option \<Rightarrow> TransferInstructionBuilder \<Rightarrow> TransferInstructionBuilder" where
  "TransferInstructionBuilder_setAmount amount b = b\<lparr>trb_amount := amount\<rparr>"

definition TransferInstructionBuilder_addTokenIds ::
  "string list \<Rightarrow> TransferInstructionBuilder \<Rightarrow> TransferInstructionBuilder" where
  "TransferInstructionBuilder_addTokenIds tokenIds b = b\<lparr>trb_ids := trb_ids b @ tokenIds\<rparr>"

definition TransferInstructionBuilder_extendTokenIds ::
  "string list \<Rightarrow> TransferInstructionBuilder \<Rightarrow> TransferInstructionBuilder" where
  "TransferInstructionBuilder_extendTokenIds items b = b\<lparr>trb_ids := trb_ids b @ items\<rparr>"

definition TransferInstructionBuilder_build :: "TransferInstructionBuilder \<Rightarrow> ('j, 't) Instruction" where
  "TransferInstructionBuilder_build b =
     (let token = trb_token b
      in \<lparr> kind = ''transfer'',
           val = Transfer \<lparr> ti_token = token, ti_from = trb_transferFrom b,
                            ti_to = trb_transferTo b, ti_amount = trb_amount b,
                            ti_ids = trb_ids b \<rparr> \<rparr>)"

subsection \<open>BurnInstructionBuilder\<close>

record BurnInstructionBuilder =
  bib_caller :: "Address option"
  bib_programId :: "identity_value option"
  bib_token :: "Address option"
  bib_burnFrom :: "identity_value option"
  bib_amount :: "string option"
  bib_tokenIds :: "string list"

definition BurnInstructionBuilder_new :: BurnInstructionBuilder where
  "BurnInstructionBuilder_new =
     \<lparr> bib_caller = None, bib_programId = None, bib_token = None, bib_burnFrom = None,
       bib_amount = None, bib_tokenIds = [] \<rparr>"

definition BurnInstructionBuilder_setCaller ::
  "Address \<Rightarrow> BurnInstructionBuilder \<Rightarrow> BurnInstructionBuilder" where
  "BurnInstructionBuilder_setCaller caller b = b\<lparr>bib_caller := Some caller\<rparr>"

definition BurnInstructionBuilder_setProgramId ::
  "identity_value \<Rightarrow> BurnInstructionBuilder \<Rightarrow> BurnInstructionBuilder" where
  "BurnInstructionBuilder_setProgramId programId b = b\<lparr>bib_programId := Some programId\<rparr>"

definition BurnInstructionBuilder_setTokenAddress ::
  "Address \<Rightarrow> BurnInstructionBuilder \<Rightarrow> BurnInstructionBuilder" where
  "BurnInstructionBuilder_setTokenAddress tokenAddress b = b\<lparr>bib_token := Some tokenAddress\<rparr>"

definition BurnInstructionBuilder_setBurnFromAddress ::
  "identity_value \<Rightarrow> BurnInstructionBuilder \<Rightarrow> BurnInstructionBuilder" where
  "BurnInstructionBuilder_setBurnFromAddress burnFromAddress b =
     b\<lparr>bib_burnFrom := Some burnFromAddress\<rparr>"

definition BurnInstructionBuilder_setAmount ::
  "string \<Rightarrow> BurnInstructionBuilder \<Rightarrow> BurnInstructionBuilder" where
  "BurnInstructionBuilder_setAmount amount b = b\<lparr>bib_amount := Some amount\<rparr>"

definition BurnInstructionBuilder_addTokenId ::
  "string \<Rightarrow> BurnInstructionBuilder \<Rightarrow> BurnInstructionBuilder" where
  "BurnInstructionBuilder_addTokenId tokenId b = b\<lparr>bib_tokenIds := bib_tokenIds b @ [tokenId]\<rparr>"

definition BurnInstructionBuilder_extendTokenIds ::
  "string list \<Rightarrow> BurnInstructionBuilder \<Rightarrow> BurnInstructionBuilder" where
  "BurnInstructionBuilder_extendTokenIds items b = b\<lparr>bib_tokenIds := bib_tokenIds b @ items\<rparr>"

definition BurnInstructionBuilder_build :: "BurnInstructionBuilder \<Rightarrow> ('j, 't) Instruction" where
  "BurnInstructionBuilder_build b =
     \<lparr> kind = ''burn'',
       val = Burn \<lparr> bi_caller = bib_caller b, bi_programId = bib_programId b,
                    bi_token = bib_token b, bi_burnFrom = bib_burnFrom b,
                    bi_amount = bib_amount b, bi_tokenIds = bib_tokenIds b \<rparr> \<rparr>"

subsection \<open>OutputBuilder\<close>

record ('i, 'j, 't) OutputBuilder =
  ob_inputs :: "'i option"
  ob_instructions :: "('j, 't) Instruction list"

definition OutputBuilder_new :: "('i, 'j, 't) OutputBuilder" where
  "OutputBuilder_new = \<lparr> ob_inputs = None, ob_instructions = [] \<rparr>"

text \<open>\<^verbatim>\<open>setInputs(inputs: any)\<close>: any value, \<^verbatim>\<open>null\<close> included.\<close>

definition OutputBuilder_setInputs ::
  "'i option \<Rightarrow> ('i, 'j, 't) OutputBuilder \<Rightarrow> ('i, 'j, 't) OutputBuilder" where
  "OutputBuilder_setInputs inputs_arg b = b\<lparr>ob_inputs := inputs_arg\<rparr>"

definition OutputBuilder_addInstruction ::
  "('j, 't) Instruction \<Rightarrow> ('i, 'j, 't) OutputBuilder \<Rightarrow> ('i, 'j, 't) OutputBuilder" where
  "OutputBuilder_addInstruction instruction b =
     b\<lparr>ob_instructions := ob_instructions b @ [instruction]\<rparr>"

definition OutputBuilder_build :: "('i, 'j, 't) OutputBuilder \<Rightarrow> ('i, 'j, 't) Outputs" where
  "OutputBuilder_build b = \<lparr> inputs = ob_inputs b, instructions = ob_instructions b \<rparr>"

subsection \<open>Sequences of calls on one builder\<close>

text \<open>
  A use of a builder is a chain of method calls on one object.  For each builder, the datatype
  of its setter calls and the function that performs one of them.
\<close>

datatype 't TokenUpdateBuilder_call =
    TUB_addUpdateAccountAddress identity_value
  | TUB_addTokenAddress identity_value
  | TUB_addUpdateField 't

fun TokenUpdateBuilder_invoke ::
  "'t TokenUpdateBuilder_call \<Rightarrow> 't TokenUpdateBuilder \<Rightarrow> 't TokenUpdateBuilder" where
  "TokenUpdateBuilder_invoke (TUB_addUpdateAccountAddress v) = TokenUpdateBuilder_addUpdateAccountAddress v"
| "TokenUpdateBuilder_invoke (TUB_addTokenAddress v) = TokenUpdateBuilder_addTokenAddress v"
| "TokenUpdateBuilder_invoke (TUB_addUpdateField v) = TokenUpdateBuilder_addUpdateField v"

datatype 'u TokenDistributionBuilder_call =
    TDB_setProgramId identity_value
  | TDB_setReceiver identity_value
  | TDB_setAmount string
  | TDB_addTokenId string
  | TDB_extendTokenIds "string list"
  | TDB_addUpdateField 'u
  | TDB_extendUpdateFields "'u list"

fun TokenDistributionBuilder_invoke ::
  "'u TokenDistributionBuilder_call \<Rightarrow> 'u TokenDistributionBuilder \<Rightarrow> 'u TokenDistributionBuilder" where
  "TokenDistributionBuilder_invoke (TDB_setProgramId v) = TokenDistributionBuilder_setProgramId v"
| "TokenDistributionBuilder_invoke (TDB_setReceiver v) = TokenDistributionBuilder_setReceiver v"
| "TokenDistributionBuilder_invoke (TDB_setAmount v) = TokenDistributionBuilder_setAmount v"
| "TokenDistributionBuilder_invoke (TDB_addTokenId v) = TokenDistributionBuilder_addTokenId v"
| "TokenDistributionBuilder_invoke (TDB_extendTokenIds v) = TokenDistributionBuilder_extendTokenIds v"
| "TokenDistributionBuilder_invoke (TDB_addUpdateField v) = TokenDistributionBuilder_addUpdateField v"
| "TokenDistributionBuilder_invoke (TDB_extendUpdateFields v) = TokenDistributionBuilder_extendUpdateFields v"

datatype 'j CreateInstructionBuilder_call =
    CIB_setProgramNamespace identity_value
  | CIB_setProgramId identity_value
  | CIB_setProgramOwner Address
  | CIB_setTotalSupply string
  | CIB_setInitializedSupply string
  | CIB_addTokenDistribution "'j TokenDistribution"
  | CIB_extendTokenDistribution "'j TokenDistribution list"

fun CreateInstructionBuilder_invoke ::
  "'j CreateInstructionBuilder_call \<Rightarrow> 'j CreateInstructionBuilder \<Rightarrow> 'j CreateInstructionBuilder" where
  "CreateInstructionBuilder_invoke (CIB_setProgramNamespace v) = CreateInstructionBuilder_setProgramNamespace v"
| "CreateInstructionBuilder_invoke (CIB_setProgramId v) = CreateInstructionBuilder_setProgramId v"
| "CreateInstructionBuilder_invoke (CIB_setProgramOwner v) = CreateInstructionBuilder_setProgramOwner v"
| "CreateInstructionBuilder_invoke (CIB_setTotalSupply v) = CreateInstructionBuilder_setTotalSupply v"
| "CreateInstructionBuilder_invoke (CIB_setInitializedSupply v) = CreateInstructionBuilder_setInitializedSupply v"
| "CreateInstructionBuilder_invoke (CIB_addTokenDistribution v) = CreateInstructionBuilder_addTokenDistribution v"
| "CreateInstructionBuilder_invoke (CIB_extendTokenDistribution v) = CreateInstructionBuilder_extendTokenDistribution v"

datatype 't UpdateInstructionBuilder_call =
    UIB_addUpdate 't
  | UIB_extendUpdates "'t list"

fun UpdateInstructionBuilder_invoke ::
  "'t UpdateInstructionBuilder_call \<Rightarrow> 't UpdateInstructionBuilder \<Rightarrow> 't UpdateInstructionBuilder" where
  "UpdateInstructionBuilder_invoke (UIB_addUpdate v) = UpdateInstructionBuilder_addUpdate v"
| "UpdateInstructionBuilder_invoke (UIB_extendUpdates v) = UpdateInstructionBuilder_extendUpdates v"

datatype TransferInstructionBuilder_call =
    TRB_setTokenAddress Address
  | TRB_setTransferFrom identity_value
  | TRB_setTransferTo identity_value
  | TRB_setAmount "string option"
  | TRB_addTokenIds "string list"
  | TRB_extendTokenIds "string list"

fun TransferInstructionBuilder_invoke ::
  "TransferInstructionBuilder_call \<Rightarrow> TransferInstructionBuilder \<Rightarrow> TransferInstructionBuilder" where
  "TransferInstructionBuilder_invoke (TRB_setTokenAddress v) = TransferInstructionBuilder_setTokenAddress v"
| "TransferInstructionBuilder_invoke (TRB_setTransferFrom v) = TransferInstructionBuilder_setTransferFrom v"
| "TransferInstructionBuilder_invoke (TRB_setTransferTo v) = TransferInstructionBuilder_setTransferTo v"
| "TransferInstructionBuilder_invoke (TRB_setAmount v) = TransferInstructionBuilder_setAmount v"
| "TransferInstructionBuilder_invoke (TRB_addTokenIds v) = TransferInstructionBuilder_addTokenIds v"
| "TransferInstructionBuilder_invoke (TRB_extendTokenIds v) = TransferInstructionBuilder_extendTokenIds v"

datatype BurnInstructionBuilder_call =
    BIB_setCaller Address
  | BIB_setProgramId identity_value
  | BIB_setTokenAddress Address
  | BIB_setBurnFromAddress identity_value
  | BIB_setAmount string
  | BIB_addTokenId string
  | BIB_extendTokenIds "string list"

fun BurnInstructionBuilder_invoke ::
  "BurnInstructionBuilder_call \<Rightarrow> BurnInstructionBuilder \<Rightarrow> BurnInstructionBuilder" where
  "BurnInstructionBuilder_invoke (BIB_setCaller v) = BurnInstructionBuilder_setCaller v"
| "BurnInstructionBuilder_invoke (BIB_setProgramId v) = BurnInstructionBuilder_setProgramId v"
| "BurnInstructionBuilder_invoke (BIB_setTokenAddress v) = BurnInstructionBuilder_setTokenAddress v"
| "BurnInstructionBuilder_invoke (BIB_setBurnFromAddress v) = BurnInstructionBuilder_setBurnFromAddress v"
| "BurnInstructionBuilder_invoke (BIB_setAmount v) = BurnInstructionBuilder_setAmount v"
| "BurnInstructionBuilder_invoke (BIB_addTokenId v) = BurnInstructionBuilder_addTokenId v"
| "BurnInstructionBuilder_invoke (BIB_extendTokenIds v) = BurnInstructionBuilder_extendTokenIds v"

datatype ('i, 'j, 't) OutputBuilder_call =
    OB_setInputs "'i option"
  | OB_addInstruction "('j, 't) Instruction"

fun OutputBuilder_invoke ::
  "('i, 'j, 't) OutputBuilder_call \<Rightarrow> ('i, 'j, 't) OutputBuilder \<Rightarrow> ('i, 'j, 't) OutputBuilder" where
  "OutputBuilder_invoke (OB_setInputs v) = OutputBuilder_setInputs v"
| "OutputBuilder_invoke (OB_addInstruction v) = OutputBuilder_addInstruction v"

text \<open>
  \<open>chain call b cs\<close> is the builder after the calls \<open>cs\<close>, in order, on the builder \<open>b\<close>.
\<close>

definition chain :: "('c \<Rightarrow> 'b \<Rightarrow> 'b) \<Rightarrow> 'b \<Rightarrow> 'c list \<Rightarrow> 'b" where
  "chain call b cs = foldl (\<lambda>b c. call c b) b cs"

text \<open>
  The \<^verbatim>\<open>build\<close> methods in state-passing form: the value returned and the builder after
  the call.  The body of every \<^verbatim>\<open>build\<close> reads the fields of \<^verbatim>\<open>this\<close> and assigns
  none of them.
\<close>

definition TokenUpdateBuilder_build_method ::
  "'t TokenUpdateBuilder \<Rightarrow> ('j, 't) Instruction \<times> 't TokenUpdateBuilder" where
  "TokenUpdateBuilder_build_method b = (TokenUpdateBuilder_build b, b)"

definition TokenDistributionBuilder_build_method ::
  "('u \<Rightarrow> 'j) \<Rightarrow> 'u TokenDistributionBuilder \<Rightarrow> 'j TokenDistribution \<times> 'u TokenDistributionBuilder" where
  "TokenDistributionBuilder_build_method toJson b = (TokenDistributionBuilder_build toJson b, b)"

definition CreateInstructionBuilder_build_method ::
  "'j CreateInstructionBuilder \<Rightarrow> ('j, 't) Instruction \<times> 'j CreateInstructionBuilder" where
  "CreateInstructionBuilder_build_method b = (CreateInstructionBuilder_build b, b)"

definition UpdateInstructionBuilder_build_method ::
  "'t UpdateInstructionBuilder \<Rightarrow> ('j, 't) Instruction \<times> 't UpdateInstructionBuilder" where
  "UpdateInstructionBuilder_build_method b = (UpdateInstructionBuilder_build b, b)"

definition TransferInstructionBuilder_build_method ::
  "TransferInstructionBuilder \<Rightarrow> ('j, 't) Instruction \<times> TransferInstructionBuilder" where
  "TransferInstructionBuilder_build_method b = (TransferInstructionBuilder_build b, b)"

definition BurnInstructionBuilder_build_method ::
  "BurnInstructionBuilder \<Rightarrow> ('j, 't) Instruction \<times> BurnInstructionBuilder" where
  "BurnInstructionBuilder_build_method b = (BurnInstructionBuilder_build b, b)"

definition OutputBuilder_build_method ::
  "('i, 'j, 't) OutputBuilder \<Rightarrow> ('i, 'j, 't) Outputs \<times> ('i, 'j, 't) OutputBuilder" where
  "OutputBuilder_build_method b = (OutputBuilder_build b, b)"

text \<open>
  A session on one builder is a list of method calls, setters and \<^verbatim>\<open>build\<close> in any order;
  its result is the builder after the last call and the values the \<^verbatim>\<open>build\<close> calls
  returned, in order.
\<close>

datatype 'c method_call = Setter 'c | Build

fun perform ::
  "('c \<Rightarrow> 'b \<Rightarrow> 'b) \<Rightarrow> ('b \<Rightarrow> 'v \<times> 'b) \<Rightarrow> 'c method_call \<Rightarrow> 'b \<times> 'v list \<Rightarrow> 'b \<times> 'v list" where
  "perform call build_method (Setter c) (b, built) = (call c b, built)"
| "perform call build_method Build (b, built) =
     (snd (build_method b), built @ [fst (build_method b)])"

definition session ::
  "('c \<Rightarrow> 'b \<Rightarrow> 'b) \<Rightarrow> ('b \<Rightarrow> 'v \<times> 'b) \<Rightarrow> 'b \<Rightarrow> 'c method_call list \<Rightarrow> 'b \<times> 'v list" where
  "session call build_method b ms = foldl (\<lambda>s m. perform call build_method m s) (b, []) ms"

fun setter_calls :: "'c method_call list \<Rightarrow> 'c list" where
  "setter_calls [] = []"
| "setter_calls (Setter c # ms) = c # setter_calls ms"
| "setter_calls (Build # ms) = setter_calls ms"

text \<open>
  The property of a session that \<^verbatim>\<open>build\<close> leaves the builder as it is: the builder after
  the session is the builder after its setter calls alone, and two more \<^verbatim>\<open>build\<close> calls
  return twice the same value, built from that builder, and leave it again.
\<close>

definition build_leaves_builder ::
  "('c \<Rightarrow> 'b \<Rightarrow> 'b) \<Rightarrow> ('b \<Rightarrow> 'v \<times> 'b) \<Rightarrow> 'b \<Rightarrow> 'c method_call list \<Rightarrow> bool" where
  "build_leaves_builder call build_method b ms =
     (let b' = chain call b (setter_calls ms)
      in fst (session call build_method b ms) = b'
         \<and> session call build_method b (ms @ [Build, Build])
             = (b', snd (session call build_method b ms)
                    @ [fst (build_method b'), fst (build_method b')]))"

subsection \<open>The identity values inside a built instruction\<close>

text \<open>
  The values of static type \<^verbatim>\<open>AddressOrNamespace\<close> that an instruction holds, those of its
  token distributions included; an instruction holds no unflattened wrapper when none of them
  is an instance of the class.
\<close>

definition distribution_identities :: "'j TokenDistribution \<Rightarrow> identity_value option list" where
  "distribution_identities d = [td_programId d, td_to d]"

fun payload_identities :: "('j, 't) payload \<Rightarrow> identity_value option list" where
  "payload_identities (Create p) =
     [ci_programNamespace p, ci_programId p] @ concat (map distribution_identities (ci_distribution p))"
| "payload_identities (Update p) = []"
| "payload_identities (Transfer p) = [ti_from p, ti_to p]"
| "payload_identities (Burn p) = [bi_programId p, bi_burnFrom p]"

definition no_wrappers :: "('j, 't) Instruction \<Rightarrow> bool" where
  "no_wrappers i = list_all (\<lambda>v. \<not> is_wrapper v) (payload_identities (val i))"

text \<open>The list fields of a payload: the token distributions, the token ids.\<close>

fun payload_distribution :: "('j, 't) payload \<Rightarrow> 'j TokenDistribution list" where
  "payload_distribution (Create p) = ci_distribution p"
| "payload_distribution (Update p) = []"
| "payload_distribution (Transfer p) = []"
| "payload_distribution (Burn p) = []"

fun payload_ids :: "('j, 't) payload \<Rightarrow> string list" where
  "payload_ids (Create p) = []"
| "payload_ids (Update p) = []"
| "payload_ids (Transfer p) = ti_ids p"
| "payload_ids (Burn p) = bi_tokenIds p"

section \<open>The numeric codec\<close>

text \<open>
  \<^verbatim>\<open>formatAmountToHex\<close>, \<^verbatim>\<open>formatBigIntToHex\<close> and \<^verbatim>\<open>formatHexToAmount\<close> are
  exported from \<^verbatim>\<open>lib/utils\<close>, which is not among the files at hand: only the script that
  prints their results is.  They are modelled from the specification of the codec
  (section 4.5 and the amount wire shape of section 6).  Amounts are natural numbers of any
  size; no floating-point value occurs.
\<close>

subsection \<open>Numerals in a base\<close>

function to_base :: "nat \<Rightarrow> nat \<Rightarrow> nat list" where
  "to_base b n = (if b < 2 \<or> n < b then [n] else to_base b (n div b) @ [n mod b])"
  by pat_completeness auto
termination
  by (relation "measure snd") auto

declare to_base.simps [simp del]

definition from_base :: "nat \<Rightarrow> nat list \<Rightarrow> nat" where
  "from_base b ds = foldl (\<lambda>acc d. acc * b + d) 0 ds"

definition hex_chars :: string where
  "hex_chars = ''0123456789abcdef''"

definition digit_char :: "nat \<Rightarrow> char" where
  "digit_char d = hex_chars ! d"

fun index_of :: "'a \<Rightarrow> 'a list \<Rightarrow> nat" where
  "index_of x [] = 0"
| "index_of x (y # ys) = (if x = y then 0 else Suc (index_of x ys))"

definition digit_value :: "char \<Rightarrow> nat" where
  "digit_value c = index_of c hex_chars"

definition is_decimal_digit :: "char \<Rightarrow> bool" where
  "is_decimal_digit c = (c \<in> set ''0123456789'')"

definition is_hex_digit :: "char \<Rightarrow> bool" where
  "is_hex_digit c = (c \<in> set hex_chars)"

definition decimal_of_nat :: "nat \<Rightarrow> string" where
  "decimal_of_nat n = map digit_char (to_base 10 n)"

definition nat_of_decimal :: "string \<Rightarrow> nat" where
  "nat_of_decimal s = from_base 10 (map digit_value s)"

definition hex_of_nat :: "nat \<Rightarrow> string" where
  "hex_of_nat n = map digit_char (to_base 16 n)"

definition nat_of_hex :: "string \<Rightarrow> nat" where
  "nat_of_hex s = from_base 16 (map digit_value s)"

text \<open>\<^verbatim>\<open>s.padStart(n, c)\<close> and \<^verbatim>\<open>s.padEnd(n, c)\<close>: a longer string is left as it is.\<close>

definition padStart :: "nat \<Rightarrow> char \<Rightarrow> string \<Rightarrow> string" where
  "padStart n c s = replicate (n - length s) c @ s"

definition padEnd :: "nat \<Rightarrow> char \<Rightarrow> string \<Rightarrow> string" where
  "padEnd n c s = s @ replicate (n - length s) c"

subsection \<open>Decimal strings\<close>

datatype codec_error = NumericParseError

text \<open>
  Modelled from the spec: the parsing of a decimal amount, which is not among the files.  A
  non-negative decimal string is a non-empty run of digits, optionally followed by a point
  and a non-empty run of digits; the integer part and the fractional part are parsed
  separately, and anything else (a sign, a letter, a second point) is malformed.
\<close>

definition decimal_parts :: "string \<Rightarrow> (string \<times> string) option" where
  "decimal_parts s =
     (let integerPart = takeWhile (\<lambda>c. c \<noteq> CHR ''.'') s;
          rest = dropWhile (\<lambda>c. c \<noteq> CHR ''.'') s
      in if integerPart = [] \<or> \<not> list_all is_decimal_digit integerPart then None
         else if rest = [] then Some (integerPart, [])
         else if tl rest = [] \<or> \<not> list_all is_decimal_digit (tl rest) then None
         else Some (integerPart, tl rest))"

text \<open>
  Modelled from the spec: \<^verbatim>\<open>formatBigIntToHex\<close>, which is not among the files; the amount
  wire shape is \<^verbatim>\<open>"0x"\<close> followed by the lower-case hex digits of the integer, padded
  with zeros to 64 characters.
\<close>

definition formatBigIntToHex :: "nat \<Rightarrow> string" where
  "formatBigIntToHex n = ''0x'' @ padStart 64 (CHR ''0'') (hex_of_nat n)"

text \<open>
  Modelled from the spec: \<^verbatim>\<open>formatAmountToHex\<close>, which is not among the files; it parses
  the integer and the fractional part separately, right-pads or truncates the fractional part
  to exactly 18 digits, concatenates both into one integer and renders it as lower-case hex
  padded to 64 characters with the prefix \<^verbatim>\<open>0x\<close>; malformed input is a parse error.
\<close>

definition formatAmountToHex :: "string \<Rightarrow> codec_error + string" where
  "formatAmountToHex amount =
     (case decimal_parts amount of
        None \<Rightarrow> Inl NumericParseError
      | Some (integerPart, decimalPart) \<Rightarrow>
          Inr (formatBigIntToHex
                 (nat_of_decimal (integerPart @ take 18 (padEnd 18 (CHR ''0'') decimalPart)))))"

definition strip_trailing_zeros :: "string \<Rightarrow> string" where
  "strip_trailing_zeros s = rev (dropWhile (\<lambda>c. c = CHR ''0'') (rev s))"

definition strip_leading_zeros :: "string \<Rightarrow> string" where
  "strip_leading_zeros s =
     (let r = dropWhile (\<lambda>c. c = CHR ''0'') s in if r = [] then ''0'' else r)"

text \<open>
  Modelled from the spec: \<^verbatim>\<open>formatHexToAmount\<close>, which is not among the files, with its
  default of the full precision of 18 digits: the hex form is read as an integer, divided by
  \<open>10 ^ 18\<close> into the whole and the fractional part, and the trailing zeros of the 18
  fractional digits are trimmed; input that is not \<^verbatim>\<open>0x\<close> followed by hex digits is a
  parse error.
\<close>

definition formatHexToAmount :: "string \<Rightarrow> codec_error + string" where
  "formatHexToAmount hexString =
     (if take 2 hexString = ''0x'' \<and> drop 2 hexString \<noteq> []
         \<and> list_all is_hex_digit (drop 2 hexString)
      then let n = nat_of_hex (drop 2 hexString);
               wholePart = n div 10 ^ 18;
               fractionalPart = n mod 10 ^ 18;
               trimmed = strip_trailing_zeros
                           (padStart 18 (CHR ''0'') (decimal_of_nat fractionalPart))
           in Inr (decimal_of_nat wholePart @ (if trimmed = [] then [] else ''.'' @ trimmed))
      else Inl NumericParseError)"

text \<open>
  The canonical form of a decimal string, as the round-trip property words it: the string
  with the insignificant trailing zeros stripped, that is without the trailing zeros of the
  fractional part, and without the point when no fractional digit is left.  The integer part
  is left as it is written.
\<close>

definition canonical :: "string \<Rightarrow> string" where
  "canonical s =
     (case decimal_parts s of
        None \<Rightarrow> s
      | Some (integerPart, decimalPart) \<Rightarrow>
          integerPart
            @ (if strip_trailing_zeros decimalPart = [] then []
               else ''.'' @ strip_trailing_zeros decimalPart))"

text \<open>
  A decimal string has an insignificant leading zero when its integer part has more than one
  digit and starts with \<^verbatim>\<open>0\<close>.
\<close>

definition leading_zero :: "string \<Rightarrow> bool" where
  "leading_zero s =
     (case decimal_parts s of
        None \<Rightarrow> False
      | Some (integerPart, decimalPart) \<Rightarrow> 1 < length integerPart \<and> hd integerPart = CHR ''0'')"

text \<open>
  The canonical form with the leading zeros of the integer part stripped as well (all but
  its last digit).
\<close>

definition canonical_without_leading_zeros :: "string \<Rightarrow> string" where
  "canonical_without_leading_zeros s =
     (case decimal_parts s of
        None \<Rightarrow> s
      | Some (integerPart, decimalPart) \<Rightarrow>
          strip_leading_zeros integerPart
            @ (if strip_trailing_zeros decimalPart = [] then []
               else ''.'' @ strip_trailing_zeros decimalPart))"

text \<open>The decimal strings of the round trip: at most 18 fractional digits.\<close>

definition is_amount :: "string \<Rightarrow> bool" where
  "is_amount s =
     (case decimal_parts s of None \<Rightarrow> False | Some (integerPart, decimalPart) \<Rightarrow> length decimalPart \<le> 18)"

section \<open>Facts about the dispatcher\<close>

lemma lookup_after_replace:
  "lookup_strategy (addOrExtendMethodStrategy m h False c) m = Fn h"
  by (simp add: addOrExtendMethodStrategy_def lookup_strategy_def)

lemma lookup_after_extend:
  "lookup_strategy c m = Fn g \<Longrightarrow>
   lookup_strategy (addOrExtendMethodStrategy m h True c) m = Fn (composed (Fn g) h)"
  by (simp add: addOrExtendMethodStrategy_def lookup_strategy_def Let_def)

lemma executeMethod_Fn:
  "lookup_strategy c (contractFn ci) = Fn f \<Longrightarrow> executeMethod c a ci = f a ci JSUndefined"
  by (simp add: executeMethod_def)

lemma executeMethod_registered:
  "methodStrategies c (contractFn ci) = Some f \<Longrightarrow> executeMethod c a ci = f a ci JSUndefined"
  by (simp add: executeMethod_def lookup_strategy_def)

lemma executeMethod_Absent:
  "lookup_strategy c (contractFn ci) = Absent \<Longrightarrow>
   executeMethod c a ci = Inl (Error (''Unknown method: '' @ contractFn ci))"
  by (simp add: executeMethod_def)

text \<open>
  C1.  A base handler \<open>H0\<close> is registered for the method name \<open>m\<close>, then the name is
  extended with \<open>H1\<close> and then with \<open>H2\<close>.  Invoking \<open>m\<close> calls \<open>H0\<close> first, gives its
  result \<open>R0\<close> to \<open>H1\<close> as third argument, and gives the result of \<open>H1\<close> to \<open>H2\<close> as
  third argument: the result is \<open>H2 (a, ci, H1 (a, ci, R0))\<close>.  An exception thrown by a
  stage ends the invocation with that exception.
\<close>

theorem composition_order:
  "executeMethod
     (addOrExtendMethodStrategy m H2 True
       (addOrExtendMethodStrategy m H1 True
         (addOrExtendMethodStrategy m H0 False c)))
     a (ci\<lparr>contractFn := m\<rparr>)
   = (case H0 a (ci\<lparr>contractFn := m\<rparr>) JSUndefined of
        Inl e \<Rightarrow> Inl e
      | Inr R0 \<Rightarrow>
          (case H1 a (ci\<lparr>contractFn := m\<rparr>) R0 of
             Inl e \<Rightarrow> Inl e
           | Inr R1 \<Rightarrow> H2 a (ci\<lparr>contractFn := m\<rparr>) R1))"
proof -
  let ?c0 = "addOrExtendMethodStrategy m H0 False c"
  let ?c1 = "addOrExtendMethodStrategy m H1 True ?c0"
  let ?c2 = "addOrExtendMethodStrategy m H2 True ?c1"
  have l0: "lookup_strategy ?c0 m = Fn H0"
    by (rule lookup_after_replace)
  have l1: "lookup_strategy ?c1 m = Fn (composed (Fn H0) H1)"
    by (rule lookup_after_extend [OF l0])
  have l2: "lookup_strategy ?c2 m = Fn (composed (Fn (composed (Fn H0) H1)) H2)"
    by (rule lookup_after_extend [OF l1])
  have "executeMethod ?c2 a (ci\<lparr>contractFn := m\<rparr>)
        = composed (Fn (composed (Fn H0) H1)) H2 a (ci\<lparr>contractFn := m\<rparr>) JSUndefined"
    by (rule executeMethod_Fn) (simp add: l2)
  then show ?thesis
    by (simp add: composed_def split: sum.splits)
qed

lemma start_executeMethod:
  "start c \<lparr>accountInfo = a, contractInput = ci\<rparr> = executeMethod c a ci"
  by (simp add: start_def)

lemma table_after_replace:
  "methodStrategies (addOrExtendMethodStrategy m h False c) m = Some h"
  by (simp add: addOrExtendMethodStrategy_def)

lemma table_after_first_registration:
  "lookup_strategy c m = Absent \<Longrightarrow>
   methodStrategies (addOrExtendMethodStrategy m h e c) m = Some h"
  by (simp add: addOrExtendMethodStrategy_def)

lemma table_other_names:
  "m' \<noteq> m \<Longrightarrow>
   methodStrategies (addOrExtendMethodStrategy m h e c) m' = methodStrategies c m'"
  by (simp add: addOrExtendMethodStrategy_def Let_def)

text \<open>
  C2.  On a contract on which no method was registered, the method name \<^verbatim>\<open>toString\<close> is
  not a registered name, and yet the invocation does not fail with the error
  \<^verbatim>\<open>Unknown method: toString\<close>: the read of the table finds the function that every
  object inherits, the dispatcher calls it, and the invocation returns the string
  \<^verbatim>\<open>[object Undefined]\<close>, through \<open>executeMethod\<close> and through \<open>start\<close>.
\<close>

theorem unregistered_toString_returns:
  "methodStrategies (Contract_new :: (unit, unit, unit) Contract) ''toString'' = None
   \<and> executeMethod (Contract_new :: (unit, unit, unit) Contract) JSUndefined
        \<lparr>contractFn = ''toString'', params = ()\<rparr>
       = Inr (JSString ''[object Undefined]'')
   \<and> start (Contract_new :: (unit, unit, unit) Contract)
        \<lparr>accountInfo = JSUndefined, contractInput = \<lparr>contractFn = ''toString'', params = ()\<rparr>\<rparr>
       = Inr (JSString ''[object Undefined]'')"
  by (simp add: start_def executeMethod_def lookup_strategy_def Contract_new_def
      Object_prototype_def)

text \<open>
  C9.  On a contract on which no method was registered, there is no entry for the name
  \<^verbatim>\<open>toString\<close>; registering the handler that returns its third argument under that name
  with \<^verbatim>\<open>extend = true\<close> does not make the entry that handler: the entry is the handler
  composed with the inherited function, and invoking it returns \<^verbatim>\<open>[object Undefined]\<close>
  where the handler alone returns \<^verbatim>\<open>undefined\<close>.
\<close>

theorem extend_unregistered_toString_composes:
  "methodStrategies (Contract_new :: (unit, unit, unit) Contract) ''toString'' = None
   \<and> methodStrategies
        (addOrExtendMethodStrategy ''toString'' (\<lambda>a ci r. Inr r) True
           (Contract_new :: (unit, unit, unit) Contract)) ''toString''
       \<noteq> Some (\<lambda>a ci r. Inr r)
   \<and> executeMethod
        (addOrExtendMethodStrategy ''toString'' (\<lambda>a ci r. Inr r) True
           (Contract_new :: (unit, unit, unit) Contract))
        JSUndefined \<lparr>contractFn = ''toString'', params = ()\<rparr>
       = Inr (JSString ''[object Undefined]'')"
proof -
  let ?h = "(\<lambda>a ci r. Inr r) :: (unit, unit, unit) strategy"
  let ?c = "addOrExtendMethodStrategy ''toString'' ?h True (Contract_new :: (unit, unit, unit) Contract)"
  let ?ci = "\<lparr>contractFn = ''toString'', params = ()\<rparr>"
  have run: "executeMethod ?c JSUndefined ?ci = Inr (JSString ''[object Undefined]'')"
    by (simp add: executeMethod_def addOrExtendMethodStrategy_def lookup_strategy_def
        Contract_new_def Object_prototype_def composed_def)
  have "methodStrategies ?c ''toString'' \<noteq> Some ?h"
  proof
    assume "methodStrategies ?c ''toString'' = Some ?h"
    then have "executeMethod ?c JSUndefined ?ci = ?h JSUndefined ?ci JSUndefined"
      by (simp add: executeMethod_def lookup_strategy_def)
    with run show False by simp
  qed
  moreover have "methodStrategies (Contract_new :: (unit, unit, unit) Contract) ''toString'' = None"
    by (simp add: Contract_new_def)
  ultimately show ?thesis using run by simp
qed

section \<open>Facts about the builders\<close>

lemma normalize_identity_flat: "\<not> is_wrapper (normalize_identity v)"
  by (cases v rule: normalize_identity.cases) simp_all

lemma normalize_identity_idem: "\<not> is_wrapper v \<Longrightarrow> normalize_identity v = v"
  by (cases v rule: normalize_identity.cases) simp_all

text \<open>
  C3, as stated, fails: a \<^verbatim>\<open>CreateInstructionBuilder\<close> that was given an instance of
  \<^verbatim>\<open>AddressOrNamespace\<close> as program id builds an instruction that holds this instance, not
  its wire shape.
\<close>

theorem create_build_keeps_wrapper:
  "\<not> no_wrappers
       (CreateInstructionBuilder_build
          (CreateInstructionBuilder_setProgramId (Instance (OfAddress (Address ''0x01'')))
             (CreateInstructionBuilder_new :: unit CreateInstructionBuilder))
        :: (unit, unit) Instruction)"
  by (simp add: no_wrappers_def CreateInstructionBuilder_build_def
      CreateInstructionBuilder_setProgramId_def CreateInstructionBuilder_new_def)

text \<open>
  C3, amended.  \<^verbatim>\<open>TokenDistributionBuilder.build\<close> converts the program id and the receiver
  it holds to their wire shape (an instance of \<^verbatim>\<open>AddressOrNamespace\<close> through
  \<^verbatim>\<open>toJson\<close>, anything else as it is), so the distribution it returns holds no wrapper, and
  it converts every update field through \<^verbatim>\<open>toJson\<close>.  The \<^verbatim>\<open>build\<close> of
  \<^verbatim>\<open>CreateInstructionBuilder\<close>, \<^verbatim>\<open>TransferInstructionBuilder\<close> and
  \<^verbatim>\<open>BurnInstructionBuilder\<close> stores the identity values as they were given: the
  instruction holds no wrapper exactly when the builder was given none.
\<close>

theorem identity_normalization:
  "td_programId (TokenDistributionBuilder_build toJson tdb) = normalize_identity (tdb_programId tdb)
   \<and> td_to (TokenDistributionBuilder_build toJson tdb) = normalize_identity (tdb_to tdb)
   \<and> list_all (\<lambda>v. \<not> is_wrapper v)
        (distribution_identities (TokenDistributionBuilder_build toJson tdb))
   \<and> td_updateFields (TokenDistributionBuilder_build toJson tdb) = map toJson (tdb_updateFields tdb)
   \<and> payload_identities (val (CreateInstructionBuilder_build cib))
       = [cib_programNamespace cib, cib_programId cib]
         @ concat (map distribution_identities (cib_distribution cib))
   \<and> payload_identities (val (TransferInstructionBuilder_build trb))
       = [trb_transferFrom trb, trb_transferTo trb]
   \<and> payload_identities (val (BurnInstructionBuilder_build bib))
       = [bib_programId bib, bib_burnFrom bib]"
  by (simp add: TokenDistributionBuilder_build_def distribution_identities_def
      normalize_identity_flat CreateInstructionBuilder_build_def
      TransferInstructionBuilder_build_def BurnInstructionBuilder_build_def)

text \<open>
  C5.  Whatever the state of the builder, the instruction it builds carries the tag
  \<^verbatim>\<open>create\<close>, \<^verbatim>\<open>update\<close>, \<^verbatim>\<open>transfer\<close> or \<^verbatim>\<open>burn\<close> of its kind, and the wire
  object of the instruction has this tag as its only key.
\<close>

theorem tag_fidelity:
  "kind (CreateInstructionBuilder_build cib) = ''create''
   \<and> object_keys (Instruction_toJson (CreateInstructionBuilder_build cib)) = [''create'']
   \<and> kind (UpdateInstructionBuilder_build uib) = ''update''
   \<and> object_keys (Instruction_toJson (UpdateInstructionBuilder_build uib)) = [''update'']
   \<and> kind (TokenUpdateBuilder_build tub) = ''update''
   \<and> object_keys (Instruction_toJson (TokenUpdateBuilder_build tub)) = [''update'']
   \<and> kind (TransferInstructionBuilder_build trb) = ''transfer''
   \<and> object_keys (Instruction_toJson (TransferInstructionBuilder_build trb)) = [''transfer'']
   \<and> kind (BurnInstructionBuilder_build bib) = ''burn''
   \<and> object_keys (Instruction_toJson (BurnInstructionBuilder_build bib)) = [''burn'']"
  by (simp add: object_keys_def Instruction_toJson_def CreateInstructionBuilder_build_def
      UpdateInstructionBuilder_build_def TokenUpdateBuilder_build_def
      TransferInstructionBuilder_build_def BurnInstructionBuilder_build_def)

lemma chain_Nil: "chain call b [] = b"
  by (simp add: chain_def)

lemma chain_Cons: "chain call b (c # cs) = chain call (call c b) cs"
  by (simp add: chain_def)

lemma chain_append: "chain call b (cs @ ds) = chain call (chain call b cs) ds"
  by (simp add: chain_def)

lemma addInstruction_chain:
  "ob_instructions (chain OutputBuilder_invoke b (map OB_addInstruction instrs))
   = ob_instructions b @ instrs"
  by (induction instrs arbitrary: b) (simp_all add: chain_Nil chain_Cons OutputBuilder_addInstruction_def)

text \<open>
  C6.  Every accumulating operation leaves the items that are already in the list where they
  are and puts the new items behind them, in the order given; \<^verbatim>\<open>build\<close> emits the list in
  that order (the update fields of a token distribution each through \<^verbatim>\<open>toJson\<close>).  The
  instructions of the outputs built after a run of \<^verbatim>\<open>addInstruction\<close> calls on a new
  builder are the instructions added, in the order of the calls.
\<close>

theorem accumulate_in_order:
  "tdb_tokenIds (TokenDistributionBuilder_addTokenId tokenId tdb) = tdb_tokenIds tdb @ [tokenId]
   \<and> tdb_tokenIds (TokenDistributionBuilder_extendTokenIds ids tdb) = tdb_tokenIds tdb @ ids
   \<and> tdb_updateFields (TokenDistributionBuilder_addUpdateField updateField tdb)
       = tdb_updateFields tdb @ [updateField]
   \<and> tdb_updateFields (TokenDistributionBuilder_extendUpdateFields updateFields tdb)
       = tdb_updateFields tdb @ updateFields
   \<and> td_tokenIds (TokenDistributionBuilder_build toJson tdb) = tdb_tokenIds tdb
   \<and> td_updateFields (TokenDistributionBuilder_build toJson tdb) = map toJson (tdb_updateFields tdb)
   \<and> tub_updates (TokenUpdateBuilder_addUpdateField upd tub) = tub_updates tub @ [upd]
   \<and> val (TokenUpdateBuilder_build tub) = Update \<lparr>ui_updates = tub_updates tub\<rparr>
   \<and> cib_distribution (CreateInstructionBuilder_addTokenDistribution d cib)
       = cib_distribution cib @ [d]
   \<and> cib_distribution (CreateInstructionBuilder_extendTokenDistribution ds cib)
       = cib_distribution cib @ ds
   \<and> payload_distribution (val (CreateInstructionBuilder_build cib)) = cib_distribution cib
   \<and> uib_updates (UpdateInstructionBuilder_addUpdate upd uib) = uib_updates uib @ [upd]
   \<and> uib_updates (UpdateInstructionBuilder_extendUpdates upds uib) = uib_updates uib @ upds
   \<and> val (UpdateInstructionBuilder_build uib) = Update \<lparr>ui_updates = uib_updates uib\<rparr>
   \<and> trb_ids (TransferInstructionBuilder_addTokenIds ids trb) = trb_ids trb @ ids
   \<and> trb_ids (TransferInstructionBuilder_extendTokenIds ids trb) = trb_ids trb @ ids
   \<and> payload_ids (val (TransferInstructionBuilder_build trb)) = trb_ids trb
   \<and> bib_tokenIds (BurnInstructionBuilder_addTokenId tokenId bib) = bib_tokenIds bib @ [tokenId]
   \<and> bib_tokenIds (BurnInstructionBuilder_extendTokenIds ids bib) = bib_tokenIds bib @ ids
   \<and> payload_ids (val (BurnInstructionBuilder_build bib)) = bib_tokenIds bib
   \<and> ob_instructions (OutputBuilder_addInstruction instruction ob)
       = ob_instructions ob @ [instruction]
   \<and> instructions (OutputBuilder_build ob) = ob_instructions ob
   \<and> instructions
        (OutputBuilder_build (chain OutputBuilder_invoke OutputBuilder_new (map OB_addInstruction instrs)))
       = instrs"
  by (simp add: TokenDistributionBuilder_addTokenId_def TokenDistributionBuilder_extendTokenIds_def
      TokenDistributionBuilder_addUpdateField_def TokenDistributionBuilder_extendUpdateFields_def
      TokenDistributionBuilder_build_def TokenUpdateBuilder_addUpdateField_def
      TokenUpdateBuilder_build_def CreateInstructionBuilder_addTokenDistribution_def
      CreateInstructionBuilder_extendTokenDistribution_def CreateInstructionBuilder_build_def
      UpdateInstructionBuilder_addUpdate_def UpdateInstructionBuilder_extendUpdates_def
      UpdateInstructionBuilder_build_def TransferInstructionBuilder_addTokenIds_def
      TransferInstructionBuilder_extendTokenIds_def TransferInstructionBuilder_build_def
      BurnInstructionBuilder_addTokenId_def BurnInstructionBuilder_extendTokenIds_def
      BurnInstructionBuilder_build_def OutputBuilder_addInstruction_def OutputBuilder_build_def
      addInstruction_chain OutputBuilder_new_def)

subsection \<open>Chains and sessions\<close>

lemma chain_preserves:
  assumes "\<And>c b. c \<in> set cs \<Longrightarrow> f (call c b) = f b"
  shows "f (chain call b cs) = f b"
  using assms by (induction cs arbitrary: b) (simp_all add: chain_Nil chain_Cons)

lemma session_fold_state:
  assumes pure: "\<And>b. snd (build_method b) = b"
  shows "fst (foldl (\<lambda>s m. perform call build_method m s) (b, built) ms)
         = chain call b (setter_calls ms)"
proof (induction ms arbitrary: b built)
  case Nil
  show ?case by (simp add: chain_Nil)
next
  case (Cons m ms)
  show ?case
  proof (cases m)
    case (Setter c)
    then show ?thesis using Cons.IH [of "call c b" built] by (simp add: chain_Cons)
  next
    case Build
    then show ?thesis using Cons.IH [of b "built @ [fst (build_method b)]"] by (simp add: pure)
  qed
qed

lemma session_state:
  "(\<And>b. snd (build_method b) = b) \<Longrightarrow>
   fst (session call build_method b ms) = chain call b (setter_calls ms)"
  unfolding session_def by (rule session_fold_state)

lemma session_snoc:
  "session call build_method b (ms @ [m])
   = perform call build_method m (session call build_method b ms)"
  by (simp add: session_def)

lemma pure_build_leaves_builder:
  assumes pure: "\<And>b. snd (build_method b) = b"
  shows "build_leaves_builder call build_method b ms"
proof -
  let ?s = "session call build_method b ms"
  let ?b = "chain call b (setter_calls ms)"
  have st: "fst ?s = ?b" by (rule session_state [OF pure])
  have "session call build_method b (ms @ [Build, Build])
        = perform call build_method Build (perform call build_method Build ?s)"
    by (simp add: session_def)
  also have "\<dots> = (?b, snd ?s @ [fst (build_method ?b), fst (build_method ?b)])"
    using st by (cases ?s) (simp add: pure)
  finally show ?thesis
    using st by (simp add: build_leaves_builder_def Let_def)
qed

text \<open>
  C10.  In every session on every builder, \<^verbatim>\<open>build\<close> leaves the builder as it is: the
  builder after the session is the one its setter calls alone produce, whatever
  \<^verbatim>\<open>build\<close> calls stand between them, so later setter calls add to the state set before;
  and two consecutive \<^verbatim>\<open>build\<close> calls return equal values and leave the builder again.
\<close>

theorem build_idempotent:
  "build_leaves_builder TokenUpdateBuilder_invoke TokenUpdateBuilder_build_method tub ms_tub
   \<and> build_leaves_builder TokenDistributionBuilder_invoke
        (TokenDistributionBuilder_build_method toJson) tdb ms_tdb
   \<and> build_leaves_builder CreateInstructionBuilder_invoke CreateInstructionBuilder_build_method cib ms_cib
   \<and> build_leaves_builder UpdateInstructionBuilder_invoke UpdateInstructionBuilder_build_method uib ms_uib
   \<and> build_leaves_builder TransferInstructionBuilder_invoke TransferInstructionBuilder_build_method
        trb ms_trb
   \<and> build_leaves_builder BurnInstructionBuilder_invoke BurnInstructionBuilder_build_method bib ms_bib
   \<and> build_leaves_builder OutputBuilder_invoke OutputBuilder_build_method ob ms_ob"
proof (intro conjI)
  show "build_leaves_builder TokenUpdateBuilder_invoke TokenUpdateBuilder_build_method tub ms_tub"
    by (rule pure_build_leaves_builder) (simp add: TokenUpdateBuilder_build_method_def)
  show "build_leaves_builder TokenDistributionBuilder_invoke
          (TokenDistributionBuilder_build_method toJson) tdb ms_tdb"
    by (rule pure_build_leaves_builder) (simp add: TokenDistributionBuilder_build_method_def)
  show "build_leaves_builder CreateInstructionBuilder_invoke CreateInstructionBuilder_build_method
          cib ms_cib"
    by (rule pure_build_leaves_builder) (simp add: CreateInstructionBuilder_build_method_def)
  show "build_leaves_builder UpdateInstructionBuilder_invoke UpdateInstructionBuilder_build_method
          uib ms_uib"
    by (rule pure_build_leaves_builder) (simp add: UpdateInstructionBuilder_build_method_def)
  show "build_leaves_builder TransferInstructionBuilder_invoke
          TransferInstructionBuilder_build_method trb ms_trb"
    by (rule pure_build_leaves_builder) (simp add: TransferInstructionBuilder_build_method_def)
  show "build_leaves_builder BurnInstructionBuilder_invoke BurnInstructionBuilder_build_method
          bib ms_bib"
    by (rule pure_build_leaves_builder) (simp add: BurnInstructionBuilder_build_method_def)
  show "build_leaves_builder OutputBuilder_invoke OutputBuilder_build_method ob ms_ob"
    by (rule pure_build_leaves_builder) (simp add: OutputBuilder_build_method_def)
qed

subsection \<open>Fields whose setter is never called\<close>

lemmas TokenDistributionBuilder_setters =
  TokenDistributionBuilder_setProgramId_def TokenDistributionBuilder_setReceiver_def
  TokenDistributionBuilder_setAmount_def TokenDistributionBuilder_addTokenId_def
  TokenDistributionBuilder_extendTokenIds_def TokenDistributionBuilder_addUpdateField_def
  TokenDistributionBuilder_extendUpdateFields_def

lemmas CreateInstructionBuilder_setters =
  CreateInstructionBuilder_setProgramNamespace_def CreateInstructionBuilder_setProgramId_def
  CreateInstructionBuilder_setProgramOwner_def CreateInstructionBuilder_setTotalSupply_def
  CreateInstructionBuilder_setInitializedSupply_def
  CreateInstructionBuilder_addTokenDistribution_def
  CreateInstructionBuilder_extendTokenDistribution_def

lemmas TransferInstructionBuilder_setters =
  TransferInstructionBuilder_setTokenAddress_def TransferInstructionBuilder_setTransferFrom_def
  TransferInstructionBuilder_setTransferTo_def TransferInstructionBuilder_setAmount_def
  TransferInstructionBuilder_addTokenIds_def TransferInstructionBuilder_extendTokenIds_def

lemmas BurnInstructionBuilder_setters =
  BurnInstructionBuilder_setCaller_def BurnInstructionBuilder_setProgramId_def
  BurnInstructionBuilder_setTokenAddress_def BurnInstructionBuilder_setBurnFromAddress_def
  BurnInstructionBuilder_setAmount_def BurnInstructionBuilder_addTokenId_def
  BurnInstructionBuilder_extendTokenIds_def

lemma tdb_programId_unset:
  "\<forall>v. TDB_setProgramId v \<notin> set cs \<Longrightarrow>
   tdb_programId (chain TokenDistributionBuilder_invoke b cs) = tdb_programId b"
proof (rule chain_preserves [where f = tdb_programId])
  fix c b'
  assume "\<forall>v. TDB_setProgramId v \<notin> set cs" "c \<in> set cs"
  then show "tdb_programId (TokenDistributionBuilder_invoke c b') = tdb_programId b'"
    by (cases c) (auto simp: TokenDistributionBuilder_setters)
qed

lemma tdb_to_unset:
  "\<forall>v. TDB_setReceiver v \<notin> set cs \<Longrightarrow>
   tdb_to (chain TokenDistributionBuilder_invoke b cs) = tdb_to b"
proof (rule chain_preserves [where f = tdb_to])
  fix c b'
  assume "\<forall>v. TDB_setReceiver v \<notin> set cs" "c \<in> set cs"
  then show "tdb_to (TokenDistributionBuilder_invoke c b') = tdb_to b'"
    by (cases c) (auto simp: TokenDistributionBuilder_setters)
qed

lemma tdb_amount_unset:
  "\<forall>v. TDB_setAmount v \<notin> set cs \<Longrightarrow>
   tdb_amount (chain TokenDistributionBuilder_invoke b cs) = tdb_amount b"
proof (rule chain_preserves [where f = tdb_amount])
  fix c b'
  assume "\<forall>v. TDB_setAmount v \<notin> set cs" "c \<in> set cs"
  then show "tdb_amount (TokenDistributionBuilder_invoke c b') = tdb_amount b'"
    by (cases c) (auto simp: TokenDistributionBuilder_setters)
qed

lemma tdb_tokenIds_unset:
  "(\<forall>v. TDB_addTokenId v \<notin> set cs) \<and> (\<forall>v. TDB_extendTokenIds v \<notin> set cs) \<Longrightarrow>
   tdb_tokenIds (chain TokenDistributionBuilder_invoke b cs) = tdb_tokenIds b"
proof (rule chain_preserves [where f = tdb_tokenIds])
  fix c b'
  assume "(\<forall>v. TDB_addTokenId v \<notin> set cs) \<and> (\<forall>v. TDB_extendTokenIds v \<notin> set cs)" "c \<in> set cs"
  then show "tdb_tokenIds (TokenDistributionBuilder_invoke c b') = tdb_tokenIds b'"
    by (cases c) (auto simp: TokenDistributionBuilder_setters)
qed

lemma tdb_updateFields_unset:
  "(\<forall>v. TDB_addUpdateField v \<notin> set cs) \<and> (\<forall>v. TDB_extendUpdateFields v \<notin> set cs) \<Longrightarrow>
   tdb_updateFields (chain TokenDistributionBuilder_invoke b cs) = tdb_updateFields b"
proof (rule chain_preserves [where f = tdb_updateFields])
  fix c b'
  assume "(\<forall>v. TDB_addUpdateField v \<notin> set cs) \<and> (\<forall>v. TDB_extendUpdateFields v \<notin> set cs)" "c \<in> set cs"
  then show "tdb_updateFields (TokenDistributionBuilder_invoke c b') = tdb_updateFields b'"
    by (cases c) (auto simp: TokenDistributionBuilder_setters)
qed

lemma cib_programNamespace_unset:
  "\<forall>v. CIB_setProgramNamespace v \<notin> set cs \<Longrightarrow>
   cib_programNamespace (chain CreateInstructionBuilder_invoke b cs) = cib_programNamespace b"
proof (rule chain_preserves [where f = cib_programNamespace])
  fix c b'
  assume "\<forall>v. CIB_setProgramNamespace v \<notin> set cs" "c \<in> set cs"
  then show "cib_programNamespace (CreateInstructionBuilder_invoke c b') = cib_programNamespace b'"
    by (cases c) (auto simp: CreateInstructionBuilder_setters)
qed

lemma cib_programId_unset:
  "\<forall>v. CIB_setProgramId v \<notin> set cs \<Longrightarrow>
   cib_programId (chain CreateInstructionBuilder_invoke b cs) = cib_programId b"
proof (rule chain_preserves [where f = cib_programId])
  fix c b'
  assume "\<forall>v. CIB_setProgramId v \<notin> set cs" "c \<in> set cs"
  then show "cib_programId (CreateInstructionBuilder_invoke c b') = cib_programId b'"
    by (cases c) (auto simp: CreateInstructionBuilder_setters)
qed

lemma cib_programOwner_unset:
  "\<forall>v. CIB_setProgramOwner v \<notin> set cs \<Longrightarrow>
   cib_programOwner (chain CreateInstructionBuilder_invoke b cs) = cib_programOwner b"
proof (rule chain_preserves [where f = cib_programOwner])
  fix c b'
  assume "\<forall>v. CIB_setProgramOwner v \<notin> set cs" "c \<in> set cs"
  then show "cib_programOwner (CreateInstructionBuilder_invoke c b') = cib_programOwner b'"
    by (cases c) (auto simp: CreateInstructionBuilder_setters)
qed

lemma cib_totalSupply_unset:
  "\<forall>v. CIB_setTotalSupply v \<notin> set cs \<Longrightarrow>
   cib_totalSupply (chain CreateInstructionBuilder_invoke b cs) = cib_totalSupply b"
proof (rule chain_preserves [where f = cib_totalSupply])
  fix c b'
  assume "\<forall>v. CIB_setTotalSupply v \<notin> set cs" "c \<in> set cs"
  then show "cib_totalSupply (CreateInstructionBuilder_invoke c b') = cib_totalSupply b'"
    by (cases c) (auto simp: CreateInstructionBuilder_setters)
qed

lemma cib_initializedSupply_unset:
  "\<forall>v. CIB_setInitializedSupply v \<notin> set cs \<Longrightarrow>
   cib_initializedSupply (chain CreateInstructionBuilder_invoke b cs) = cib_initializedSupply b"
proof (rule chain_preserves [where f = cib_initializedSupply])
  fix c b'
  assume "\<forall>v. CIB_setInitializedSupply v \<notin> set cs" "c \<in> set cs"
  then show "cib_initializedSupply (CreateInstructionBuilder_invoke c b') = cib_initializedSupply b'"
    by (cases c) (auto simp: CreateInstructionBuilder_setters)
qed

lemma cib_distribution_unset:
  "(\<forall>v. CIB_addTokenDistribution v \<notin> set cs) \<and> (\<forall>v. CIB_extendTokenDistribution v \<notin> set cs) \<Longrightarrow>
   cib_distribution (chain CreateInstructionBuilder_invoke b cs) = cib_distribution b"
proof (rule chain_preserves [where f = cib_distribution])
  fix c b'
  assume "(\<forall>v. CIB_addTokenDistribution v \<notin> set cs) \<and> (\<forall>v. CIB_extendTokenDistribution v \<notin> set cs)" "c \<in> set cs"
  then show "cib_distribution (CreateInstructionBuilder_invoke c b') = cib_distribution b'"
    by (cases c) (auto simp: CreateInstructionBuilder_setters)
qed

lemma uib_updates_unset:
  "(\<forall>v. UIB_addUpdate v \<notin> set cs) \<and> (\<forall>v. UIB_extendUpdates v \<notin> set cs) \<Longrightarrow>
   uib_updates (chain UpdateInstructionBuilder_invoke b cs) = uib_updates b"
proof (rule chain_preserves [where f = uib_updates])
  fix c b'
  assume "(\<forall>v. UIB_addUpdate v \<notin> set cs) \<and> (\<forall>v. UIB_extendUpdates v \<notin> set cs)" "c \<in> set cs"
  then show "uib_updates (UpdateInstructionBuilder_invoke c b') = uib_updates b'"
    by (cases c) (auto simp: UpdateInstructionBuilder_addUpdate_def UpdateInstructionBuilder_extendUpdates_def)
qed

lemma trb_token_unset:
  "\<forall>v. TRB_setTokenAddress v \<notin> set cs \<Longrightarrow>
   trb_token (chain TransferInstructionBuilder_invoke b cs) = trb_token b"
proof (rule chain_preserves [where f = trb_token])
  fix c b'
  assume "\<forall>v. TRB_setTokenAddress v \<notin> set cs" "c \<in> set cs"
  then show "trb_token (TransferInstructionBuilder_invoke c b') = trb_token b'"
    by (cases c) (auto simp: TransferInstructionBuilder_setters)
qed

lemma trb_transferFrom_unset:
  "\<forall>v. TRB_setTransferFrom v \<notin> set cs \<Longrightarrow>
   trb_transferFrom (chain TransferInstructionBuilder_invoke b cs) = trb_transferFrom b"
proof (rule chain_preserves [where f = trb_transferFrom])
  fix c b'
  assume "\<forall>v. TRB_setTransferFrom v \<notin> set cs" "c \<in> set cs"
  then show "trb_transferFrom (TransferInstructionBuilder_invoke c b') = trb_transferFrom b'"
    by (cases c) (auto simp: TransferInstructionBuilder_setters)
qed

lemma trb_transferTo_unset:
  "\<forall>v. TRB_setTransferTo v \<notin> set cs \<Longrightarrow>
   trb_transferTo (chain TransferInstructionBuilder_invoke b cs) = trb_transferTo b"
proof (rule chain_preserves [where f = trb_transferTo])
  fix c b'
  assume "\<forall>v. TRB_setTransferTo v \<notin> set cs" "c \<in> set cs"
  then show "trb_transferTo (TransferInstructionBuilder_invoke c b') = trb_transferTo b'"
    by (cases c) (auto simp: TransferInstructionBuilder_setters)
qed

lemma trb_amount_unset:
  "\<forall>v. TRB_setAmount v \<notin> set cs \<Longrightarrow>
   trb_amount (chain TransferInstructionBuilder_invoke b cs) = trb_amount b"
proof (rule chain_preserves [where f = trb_amount])
  fix c b'
  assume "\<forall>v. TRB_setAmount v \<notin> set cs" "c \<in> set cs"
  then show "trb_amount (TransferInstructionBuilder_invoke c b') = trb_amount b'"
    by (cases c) (auto simp: TransferInstructionBuilder_setters)
qed

lemma trb_ids_unset:
  "(\<forall>v. TRB_addTokenIds v \<notin> set cs) \<and> (\<forall>v. TRB_extendTokenIds v \<notin> set cs) \<Longrightarrow>
   trb_ids (chain TransferInstructionBuilder_invoke b cs) = trb_ids b"
proof (rule chain_preserves [where f = trb_ids])
  fix c b'
  assume "(\<forall>v. TRB_addTokenIds v \<notin> set cs) \<and> (\<forall>v. TRB_extendTokenIds v \<notin> set cs)" "c \<in> set cs"
  then show "trb_ids (TransferInstructionBuilder_invoke c b') = trb_ids b'"
    by (cases c) (auto simp: TransferInstructionBuilder_setters)
qed

lemma bib_caller_unset:
  "\<forall>v. BIB_setCaller v \<notin> set cs \<Longrightarrow>
   bib_caller (chain BurnInstructionBuilder_invoke b cs) = bib_caller b"
proof (rule chain_preserves [where f = bib_caller])
  fix c b'
  assume "\<forall>v. BIB_setCaller v \<notin> set cs" "c \<in> set cs"
  then show "bib_caller (BurnInstructionBuilder_invoke c b') = bib_caller b'"
    by (cases c) (auto simp: BurnInstructionBuilder_setters)
qed

lemma bib_programId_unset:
  "\<forall>v. BIB_setProgramId v \<notin> set cs \<Longrightarrow>
   bib_programId (chain BurnInstructionBuilder_invoke b cs) = bib_programId b"
proof (rule chain_preserves [where f = bib_programId])
  fix c b'
  assume "\<forall>v. BIB_setProgramId v \<notin> set cs" "c \<in> set cs"
  then show "bib_programId (BurnInstructionBuilder_invoke c b') = bib_programId b'"
    by (cases c) (auto simp: BurnInstructionBuilder_setters)
qed

lemma bib_token_unset:
  "\<forall>v. BIB_setTokenAddress v \<notin> set cs \<Longrightarrow>
   bib_token (chain BurnInstructionBuilder_invoke b cs) = bib_token b"
proof (rule chain_preserves [where f = bib_token])
  fix c b'
  assume "\<forall>v. BIB_setTokenAddress v \<notin> set cs" "c \<in> set cs"
  then show "bib_token (BurnInstructionBuilder_invoke c b') = bib_token b'"
    by (cases c) (auto simp: BurnInstructionBuilder_setters)
qed

lemma bib_burnFrom_unset:
  "\<forall>v. BIB_setBurnFromAddress v \<notin> set cs \<Longrightarrow>
   bib_burnFrom (chain BurnInstructionBuilder_invoke b cs) = bib_burnFrom b"
proof (rule chain_preserves [where f = bib_burnFrom])
  fix c b'
  assume "\<forall>v. BIB_setBurnFromAddress v \<notin> set cs" "c \<in> set cs"
  then show "bib_burnFrom (BurnInstructionBuilder_invoke c b') = bib_burnFrom b'"
    by (cases c) (auto simp: BurnInstructionBuilder_setters)
qed

lemma bib_amount_unset:
  "\<forall>v. BIB_setAmount v \<notin> set cs \<Longrightarrow>
   bib_amount (chain BurnInstructionBuilder_invoke b cs) = bib_amount b"
proof (rule chain_preserves [where f = bib_amount])
  fix c b'
  assume "\<forall>v. BIB_setAmount v \<notin> set cs" "c \<in> set cs"
  then show "bib_amount (BurnInstructionBuilder_invoke c b') = bib_amount b'"
    by (cases c) (auto simp: BurnInstructionBuilder_setters)
qed

lemma bib_tokenIds_unset:
  "(\<forall>v. BIB_addTokenId v \<notin> set cs) \<and> (\<forall>v. BIB_extendTokenIds v \<notin> set cs) \<Longrightarrow>
   bib_tokenIds (chain BurnInstructionBuilder_invoke b cs) = bib_tokenIds b"
proof (rule chain_preserves [where f = bib_tokenIds])
  fix c b'
  assume "(\<forall>v. BIB_addTokenId v \<notin> set cs) \<and> (\<forall>v. BIB_extendTokenIds v \<notin> set cs)" "c \<in> set cs"
  then show "bib_tokenIds (BurnInstructionBuilder_invoke c b') = bib_tokenIds b'"
    by (cases c) (auto simp: BurnInstructionBuilder_setters)
qed

lemma ob_inputs_unset:
  "\<forall>v. OB_setInputs v \<notin> set cs \<Longrightarrow>
   ob_inputs (chain OutputBuilder_invoke b cs) = ob_inputs b"
proof (rule chain_preserves [where f = ob_inputs])
  fix c b'
  assume "\<forall>v. OB_setInputs v \<notin> set cs" "c \<in> set cs"
  then show "ob_inputs (OutputBuilder_invoke c b') = ob_inputs b'"
    by (cases c) (auto simp: OutputBuilder_setInputs_def OutputBuilder_addInstruction_def)
qed

lemma ob_instructions_unset:
  "\<forall>v. OB_addInstruction v \<notin> set cs \<Longrightarrow>
   ob_instructions (chain OutputBuilder_invoke b cs) = ob_instructions b"
proof (rule chain_preserves [where f = ob_instructions])
  fix c b'
  assume "\<forall>v. OB_addInstruction v \<notin> set cs" "c \<in> set cs"
  then show "ob_instructions (OutputBuilder_invoke c b') = ob_instructions b'"
    by (cases c) (auto simp: OutputBuilder_setInputs_def OutputBuilder_addInstruction_def)
qed

lemma TokenDistributionBuilder_defaults:
  fixes cs :: "'u TokenDistributionBuilder_call list" and toJson :: "'u \<Rightarrow> 'j"
  defines "d \<equiv> TokenDistributionBuilder_build toJson
                  (chain TokenDistributionBuilder_invoke TokenDistributionBuilder_new cs)"
  shows "((\<forall>v. TDB_setProgramId v \<notin> set cs) \<longrightarrow> td_programId d = None)
       \<and> ((\<forall>v. TDB_setReceiver v \<notin> set cs) \<longrightarrow> td_to d = None)
       \<and> ((\<forall>v. TDB_setAmount v \<notin> set cs) \<longrightarrow> td_amount d = None)
       \<and> ((\<forall>v. TDB_addTokenId v \<notin> set cs) \<and> (\<forall>v. TDB_extendTokenIds v \<notin> set cs)
            \<longrightarrow> td_tokenIds d = [])
       \<and> ((\<forall>v. TDB_addUpdateField v \<notin> set cs) \<and> (\<forall>v. TDB_extendUpdateFields v \<notin> set cs)
            \<longrightarrow> td_updateFields d = [])"
  unfolding d_def
  by (simp add: TokenDistributionBuilder_build_def tdb_programId_unset tdb_to_unset
      tdb_amount_unset tdb_tokenIds_unset tdb_updateFields_unset TokenDistributionBuilder_new_def)

lemma CreateInstructionBuilder_defaults:
  fixes cs :: "'j CreateInstructionBuilder_call list"
  shows "\<exists>p. val (CreateInstructionBuilder_build
                 (chain CreateInstructionBuilder_invoke CreateInstructionBuilder_new cs)) = Create p
       \<and> ((\<forall>v. CIB_setProgramNamespace v \<notin> set cs) \<longrightarrow> ci_programNamespace p = None)
       \<and> ((\<forall>v. CIB_setProgramId v \<notin> set cs) \<longrightarrow> ci_programId p = None)
       \<and> ((\<forall>v. CIB_setProgramOwner v \<notin> set cs) \<longrightarrow> ci_programOwner p = None)
       \<and> ((\<forall>v. CIB_setTotalSupply v \<notin> set cs) \<longrightarrow> ci_totalSupply p = None)
       \<and> ((\<forall>v. CIB_setInitializedSupply v \<notin> set cs) \<longrightarrow> ci_initializedSupply p = None)
       \<and> ((\<forall>v. CIB_addTokenDistribution v \<notin> set cs)
            \<and> (\<forall>v. CIB_extendTokenDistribution v \<notin> set cs) \<longrightarrow> ci_distribution p = [])"
  by (simp add: CreateInstructionBuilder_build_def cib_programNamespace_unset
      cib_programId_unset cib_programOwner_unset cib_totalSupply_unset
      cib_initializedSupply_unset cib_distribution_unset CreateInstructionBuilder_new_def)

lemma UpdateInstructionBuilder_defaults:
  fixes cs :: "'t UpdateInstructionBuilder_call list"
  shows "\<exists>p. val (UpdateInstructionBuilder_build
                 (chain UpdateInstructionBuilder_invoke UpdateInstructionBuilder_new cs)) = Update p
       \<and> ((\<forall>v. UIB_addUpdate v \<notin> set cs) \<and> (\<forall>v. UIB_extendUpdates v \<notin> set cs)
            \<longrightarrow> ui_updates p = [])"
  by (simp add: UpdateInstructionBuilder_build_def uib_updates_unset
      UpdateInstructionBuilder_new_def)

lemma TransferInstructionBuilder_defaults:
  "\<exists>p. val (TransferInstructionBuilder_build
             (chain TransferInstructionBuilder_invoke TransferInstructionBuilder_new cs)) = Transfer p
       \<and> ((\<forall>v. TRB_setTokenAddress v \<notin> set cs) \<longrightarrow> ti_token p = None)
       \<and> ((\<forall>v. TRB_setTransferFrom v \<notin> set cs) \<longrightarrow> ti_from p = None)
       \<and> ((\<forall>v. TRB_setTransferTo v \<notin> set cs) \<longrightarrow> ti_to p = None)
       \<and> ((\<forall>v. TRB_setAmount v \<notin> set cs) \<longrightarrow> ti_amount p = None)
       \<and> ((\<forall>v. TRB_addTokenIds v \<notin> set cs) \<and> (\<forall>v. TRB_extendTokenIds v \<notin> set cs)
            \<longrightarrow> ti_ids p = [])"
  by (simp add: TransferInstructionBuilder_build_def trb_token_unset trb_transferFrom_unset
      trb_transferTo_unset trb_amount_unset trb_ids_unset TransferInstructionBuilder_new_def)

lemma BurnInstructionBuilder_defaults:
  "\<exists>p. val (BurnInstructionBuilder_build
             (chain BurnInstructionBuilder_invoke BurnInstructionBuilder_new cs)) = Burn p
       \<and> ((\<forall>v. BIB_setCaller v \<notin> set cs) \<longrightarrow> bi_caller p = None)
       \<and> ((\<forall>v. BIB_setProgramId v \<notin> set cs) \<longrightarrow> bi_programId p = None)
       \<and> ((\<forall>v. BIB_setTokenAddress v \<notin> set cs) \<longrightarrow> bi_token p = None)
       \<and> ((\<forall>v. BIB_setBurnFromAddress v \<notin> set cs) \<longrightarrow> bi_burnFrom p = None)
       \<and> ((\<forall>v. BIB_setAmount v \<notin> set cs) \<longrightarrow> bi_amount p = None)
       \<and> ((\<forall>v. BIB_addTokenId v \<notin> set cs) \<and> (\<forall>v. BIB_extendTokenIds v \<notin> set cs)
            \<longrightarrow> bi_tokenIds p = [])"
  by (simp add: BurnInstructionBuilder_build_def bib_caller_unset bib_programId_unset
      bib_token_unset bib_burnFrom_unset bib_amount_unset bib_tokenIds_unset
      BurnInstructionBuilder_new_def)

lemma OutputBuilder_defaults:
  fixes cs :: "('i, 'j, 't) OutputBuilder_call list"
  defines "out \<equiv> OutputBuilder_build (chain OutputBuilder_invoke OutputBuilder_new cs)"
  shows "((\<forall>v. OB_setInputs v \<notin> set cs) \<longrightarrow> inputs out = None)
       \<and> ((\<forall>v. OB_addInstruction v \<notin> set cs) \<longrightarrow> instructions out = [])"
  unfolding out_def
  by (simp add: OutputBuilder_build_def ob_inputs_unset ob_instructions_unset
      OutputBuilder_new_def)

text \<open>
  C4.  Each \<^verbatim>\<open>build\<close> is a total function of the builder: no chain of setter calls makes
  it raise an error.  After any chain of setter calls on a new builder, every field whose
  setter does not occur in the chain is \<^verbatim>\<open>null\<close> in the built value when it is a scalar
  and the empty list when it is a list (for a list both the adding and the extending call
  count as its setter).
\<close>

theorem permissive_builders:
  fixes cs_create :: "'j CreateInstructionBuilder_call list"
    and cs_dist :: "'u TokenDistributionBuilder_call list"
    and cs_update :: "'t UpdateInstructionBuilder_call list"
    and cs_out :: "('i, 'j, 't) OutputBuilder_call list"
    and toJson :: "'u \<Rightarrow> 'j"
  shows
  "(\<exists>p. val (CreateInstructionBuilder_build
               (chain CreateInstructionBuilder_invoke CreateInstructionBuilder_new cs_create)) = Create p
       \<and> ((\<forall>v. CIB_setProgramNamespace v \<notin> set cs_create) \<longrightarrow> ci_programNamespace p = None)
       \<and> ((\<forall>v. CIB_setProgramId v \<notin> set cs_create) \<longrightarrow> ci_programId p = None)
       \<and> ((\<forall>v. CIB_setProgramOwner v \<notin> set cs_create) \<longrightarrow> ci_programOwner p = None)
       \<and> ((\<forall>v. CIB_setTotalSupply v \<notin> set cs_create) \<longrightarrow> ci_totalSupply p = None)
       \<and> ((\<forall>v. CIB_setInitializedSupply v \<notin> set cs_create) \<longrightarrow> ci_initializedSupply p = None)
       \<and> ((\<forall>v. CIB_addTokenDistribution v \<notin> set cs_create)
            \<and> (\<forall>v. CIB_extendTokenDistribution v \<notin> set cs_create) \<longrightarrow> ci_distribution p = []))
   \<and> (\<exists>p. val (TransferInstructionBuilder_build
               (chain TransferInstructionBuilder_invoke TransferInstructionBuilder_new cs_transfer))
             = Transfer p
       \<and> ((\<forall>v. TRB_setTokenAddress v \<notin> set cs_transfer) \<longrightarrow> ti_token p = None)
       \<and> ((\<forall>v. TRB_setTransferFrom v \<notin> set cs_transfer) \<longrightarrow> ti_from p = None)
       \<and> ((\<forall>v. TRB_setTransferTo v \<notin> set cs_transfer) \<longrightarrow> ti_to p = None)
       \<and> ((\<forall>v. TRB_setAmount v \<notin> set cs_transfer) \<longrightarrow> ti_amount p = None)
       \<and> ((\<forall>v. TRB_addTokenIds v \<notin> set cs_transfer) \<and> (\<forall>v. TRB_extendTokenIds v \<notin> set cs_transfer)
            \<longrightarrow> ti_ids p = []))
   \<and> (\<exists>p. val (BurnInstructionBuilder_build
               (chain BurnInstructionBuilder_invoke BurnInstructionBuilder_new cs_burn)) = Burn p
       \<and> ((\<forall>v. BIB_setCaller v \<notin> set cs_burn) \<longrightarrow> bi_caller p = None)
       \<and> ((\<forall>v. BIB_setProgramId v \<notin> set cs_burn) \<longrightarrow> bi_programId p = None)
       \<and> ((\<forall>v. BIB_setTokenAddress v \<notin> set cs_burn) \<longrightarrow> bi_token p = None)
       \<and> ((\<forall>v. BIB_setBurnFromAddress v \<notin> set cs_burn) \<longrightarrow> bi_burnFrom p = None)
       \<and> ((\<forall>v. BIB_setAmount v \<notin> set cs_burn) \<longrightarrow> bi_amount p = None)
       \<and> ((\<forall>v. BIB_addTokenId v \<notin> set cs_burn) \<and> (\<forall>v. BIB_extendTokenIds v \<notin> set cs_burn)
            \<longrightarrow> bi_tokenIds p = []))
   \<and> (((\<forall>v. TDB_setProgramId v \<notin> set cs_dist) \<longrightarrow>
          td_programId (TokenDistributionBuilder_build toJson
            (chain TokenDistributionBuilder_invoke TokenDistributionBuilder_new cs_dist)) = None)
       \<and> ((\<forall>v. TDB_setReceiver v \<notin> set cs_dist) \<longrightarrow>
          td_to (TokenDistributionBuilder_build toJson
            (chain TokenDistributionBuilder_invoke TokenDistributionBuilder_new cs_dist)) = None)
       \<and> ((\<forall>v. TDB_setAmount v \<notin> set cs_dist) \<longrightarrow>
          td_amount (TokenDistributionBuilder_build toJson
            (chain TokenDistributionBuilder_invoke TokenDistributionBuilder_new cs_dist)) = None)
       \<and> ((\<forall>v. TDB_addTokenId v \<notin> set cs_dist) \<and> (\<forall>v. TDB_extendTokenIds v \<notin> set cs_dist) \<longrightarrow>
          td_tokenIds (TokenDistributionBuilder_build toJson
            (chain TokenDistributionBuilder_invoke TokenDistributionBuilder_new cs_dist)) = [])
       \<and> ((\<forall>v. TDB_addUpdateField v \<notin> set cs_dist) \<and> (\<forall>v. TDB_extendUpdateFields v \<notin> set cs_dist) \<longrightarrow>
          td_updateFields (TokenDistributionBuilder_build toJson
            (chain TokenDistributionBuilder_invoke TokenDistributionBuilder_new cs_dist)) = []))
   \<and> (\<exists>p. val (UpdateInstructionBuilder_build
               (chain UpdateInstructionBuilder_invoke UpdateInstructionBuilder_new cs_update)) = Update p
       \<and> ((\<forall>v. UIB_addUpdate v \<notin> set cs_update) \<and> (\<forall>v. UIB_extendUpdates v \<notin> set cs_update)
            \<longrightarrow> ui_updates p = []))
   \<and> (((\<forall>v. OB_setInputs v \<notin> set cs_out) \<longrightarrow>
          inputs (OutputBuilder_build (chain OutputBuilder_invoke OutputBuilder_new cs_out)) = None)
       \<and> ((\<forall>v. OB_addInstruction v \<notin> set cs_out) \<longrightarrow>
          instructions (OutputBuilder_build (chain OutputBuilder_invoke OutputBuilder_new cs_out)) = []))"
proof (intro conjI)
  show "\<exists>p. val (CreateInstructionBuilder_build
               (chain CreateInstructionBuilder_invoke CreateInstructionBuilder_new cs_create)) = Create p
       \<and> ((\<forall>v. CIB_setProgramNamespace v \<notin> set cs_create) \<longrightarrow> ci_programNamespace p = None)
       \<and> ((\<forall>v. CIB_setProgramId v \<notin> set cs_create) \<longrightarrow> ci_programId p = None)
       \<and> ((\<forall>v. CIB_setProgramOwner v \<notin> set cs_create) \<longrightarrow> ci_programOwner p = None)
       \<and> ((\<forall>v. CIB_setTotalSupply v \<notin> set cs_create) \<longrightarrow> ci_totalSupply p = None)
       \<and> ((\<forall>v. CIB_setInitializedSupply v \<notin> set cs_create) \<longrightarrow> ci_initializedSupply p = None)
       \<and> ((\<forall>v. CIB_addTokenDistribution v \<notin> set cs_create)
            \<and> (\<forall>v. CIB_extendTokenDistribution v \<notin> set cs_create) \<longrightarrow> ci_distribution p = [])"
    by (rule CreateInstructionBuilder_defaults)
  show "\<exists>p. val (TransferInstructionBuilder_build
               (chain TransferInstructionBuilder_invoke TransferInstructionBuilder_new cs_transfer))
             = Transfer p
       \<and> ((\<forall>v. TRB_setTokenAddress v \<notin> set cs_transfer) \<longrightarrow> ti_token p = None)
       \<and> ((\<forall>v. TRB_setTransferFrom v \<notin> set cs_transfer) \<longrightarrow> ti_from p = None)
       \<and> ((\<forall>v. TRB_setTransferTo v \<notin> set cs_transfer) \<longrightarrow> ti_to p = None)
       \<and> ((\<forall>v. TRB_setAmount v \<notin> set cs_transfer) \<longrightarrow> ti_amount p = None)
       \<and> ((\<forall>v. TRB_addTokenIds v \<notin> set cs_transfer) \<and> (\<forall>v. TRB_extendTokenIds v \<notin> set cs_transfer)
            \<longrightarrow> ti_ids p = [])"
    by (rule TransferInstructionBuilder_defaults)
  show "\<exists>p. val (BurnInstructionBuilder_build
               (chain BurnInstructionBuilder_invoke BurnInstructionBuilder_new cs_burn)) = Burn p
       \<and> ((\<forall>v. BIB_setCaller v \<notin> set cs_burn) \<longrightarrow> bi_caller p = None)
       \<and> ((\<forall>v. BIB_setProgramId v \<notin> set cs_burn) \<longrightarrow> bi_programId p = None)
       \<and> ((\<forall>v. BIB_setTokenAddress v \<notin> set cs_burn) \<longrightarrow> bi_token p = None)
       \<and> ((\<forall>v. BIB_setBurnFromAddress v \<notin> set cs_burn) \<longrightarrow> bi_burnFrom p = None)
       \<and> ((\<forall>v. BIB_setAmount v \<notin> set cs_burn) \<longrightarrow> bi_amount p = None)
       \<and> ((\<forall>v. BIB_addTokenId v \<notin> set cs_burn) \<and> (\<forall>v. BIB_extendTokenIds v \<notin> set cs_burn)
            \<longrightarrow> bi_tokenIds p = [])"
    by (rule BurnInstructionBuilder_defaults)
  show "\<exists>p. val (UpdateInstructionBuilder_build
               (chain UpdateInstructionBuilder_invoke UpdateInstructionBuilder_new cs_update)) = Update p
       \<and> ((\<forall>v. UIB_addUpdate v \<notin> set cs_update) \<and> (\<forall>v. UIB_extendUpdates v \<notin> set cs_update)
            \<longrightarrow> ui_updates p = [])"
    by (rule UpdateInstructionBuilder_defaults)
qed (use TokenDistributionBuilder_defaults [of cs_dist toJson] OutputBuilder_defaults [of cs_out]
      in simp_all)

theorem permissive_builders_witness:
  "val (CreateInstructionBuilder_build
          (chain CreateInstructionBuilder_invoke
             (CreateInstructionBuilder_new :: unit CreateInstructionBuilder)
             [CIB_setTotalSupply ''100'']) :: (unit, unit) Instruction)
     = Create \<lparr> ci_programNamespace = None, ci_programId = None, ci_programOwner = None,
                ci_totalSupply = Some ''100'', ci_initializedSupply = None,
                ci_distribution = [] \<rparr>
   \<and> val (TransferInstructionBuilder_build
            (chain TransferInstructionBuilder_invoke TransferInstructionBuilder_new [])
          :: (unit, unit) Instruction)
     = Transfer \<lparr> ti_token = None, ti_from = None, ti_to = None, ti_amount = None, ti_ids = [] \<rparr>
   \<and> val (BurnInstructionBuilder_build
            (chain BurnInstructionBuilder_invoke BurnInstructionBuilder_new
               [BIB_addTokenId ''7''])
          :: (unit, unit) Instruction)
     = Burn \<lparr> bi_caller = None, bi_programId = None, bi_token = None, bi_burnFrom = None,
              bi_amount = None, bi_tokenIds = [''7''] \<rparr>
   \<and> TokenDistributionBuilder_build (\<lambda>u :: unit. u)
        (chain TokenDistributionBuilder_invoke TokenDistributionBuilder_new [])
     = \<lparr> td_programId = None, td_to = None, td_amount = None, td_tokenIds = [],
         td_updateFields = [] \<rparr>
   \<and> val (UpdateInstructionBuilder_build
            (chain UpdateInstructionBuilder_invoke
               (UpdateInstructionBuilder_new :: unit UpdateInstructionBuilder) [])
          :: (unit, unit) Instruction)
     = Update \<lparr> ui_updates = [] \<rparr>
   \<and> OutputBuilder_build
        (chain OutputBuilder_invoke (OutputBuilder_new :: (unit, unit, unit) OutputBuilder) [])
     = \<lparr> inputs = None, instructions = [] \<rparr>"
  using permissive_builders
    [where cs_create = "[CIB_setTotalSupply ''100''] :: unit CreateInstructionBuilder_call list"
       and cs_transfer = "[]" and cs_burn = "[BIB_addTokenId ''7'']"
       and cs_dist = "[] :: unit TokenDistributionBuilder_call list"
       and cs_update = "[] :: unit UpdateInstructionBuilder_call list"
       and cs_out = "[] :: (unit, unit, unit) OutputBuilder_call list"
       and toJson = "\<lambda>u :: unit. u"]
  by (simp add: chain_def CreateInstructionBuilder_build_def CreateInstructionBuilder_new_def
      CreateInstructionBuilder_setTotalSupply_def TransferInstructionBuilder_build_def
      TransferInstructionBuilder_new_def BurnInstructionBuilder_build_def
      BurnInstructionBuilder_new_def BurnInstructionBuilder_addTokenId_def
      TokenDistributionBuilder_build_def TokenDistributionBuilder_new_def
      UpdateInstructionBuilder_build_def UpdateInstructionBuilder_new_def
      OutputBuilder_build_def OutputBuilder_new_def)

section \<open>Facts about the numeric codec\<close>

subsection \<open>Numerals in a base\<close>

lemma from_base_snoc: "from_base b (ds @ [d]) = from_base b ds * b + d"
  by (simp add: from_base_def)

lemma from_base_Nil: "from_base b [] = 0"
  by (simp add: from_base_def)

lemma from_base_append:
  "from_base b (xs @ ys) = from_base b xs * b ^ length ys + from_base b ys"
proof (induction ys rule: rev_induct)
  case Nil
  show ?case by (simp add: from_base_Nil)
next
  case (snoc y ys)
  have "from_base b (xs @ ys @ [y]) = from_base b (xs @ ys) * b + y"
    using from_base_snoc [of b "xs @ ys" y] by simp
  then show ?case
    by (simp add: snoc.IH from_base_snoc algebra_simps)
qed

lemma from_base_leading_zeros: "from_base b (replicate k 0 @ ds) = from_base b ds"
  by (induction k) (simp_all add: from_base_def)

lemma from_base_eq_0:
  "0 < b \<Longrightarrow> from_base b ds = 0 \<longleftrightarrow> (\<forall>d\<in>set ds. d = 0)"
  by (induction ds rule: rev_induct) (auto simp: from_base_Nil from_base_snoc)

lemma from_base_less:
  "\<forall>d\<in>set ds. d < b \<Longrightarrow> from_base b ds < b ^ length ds"
proof (induction ds rule: rev_induct)
  case Nil
  show ?case by (simp add: from_base_Nil)
next
  case (snoc d ds)
  then have v: "from_base b ds < b ^ length ds" and d: "d < b"
    by simp_all
  from v have "Suc (from_base b ds) \<le> b ^ length ds" by simp
  then have "Suc (from_base b ds) * b \<le> b ^ length ds * b"
    by (rule mult_le_mono1)
  moreover from d have "from_base b ds * b + d < Suc (from_base b ds) * b"
    by simp
  ultimately have "from_base b ds * b + d < b ^ length ds * b"
    by (rule less_le_trans [rotated])
  then show ?case
    by (simp add: from_base_snoc mult.commute)
qed

lemma to_base_small: "n < b \<Longrightarrow> to_base b n = [n]"
  by (simp add: to_base.simps)

lemma to_base_step: "2 \<le> b \<Longrightarrow> b \<le> n \<Longrightarrow> to_base b n = to_base b (n div b) @ [n mod b]"
  by (subst to_base.simps) simp

lemma to_base_not_Nil: "to_base b n \<noteq> []"
  by (subst to_base.simps) simp

lemma from_base_to_base: "2 \<le> b \<Longrightarrow> from_base b (to_base b n) = n"
proof (induction b n rule: to_base.induct)
  case (1 b n)
  show ?case
  proof (cases "n < b")
    case True
    then show ?thesis by (simp add: to_base_small from_base_def)
  next
    case False
    with "1.prems" have "from_base b (to_base b (n div b)) = n div b"
      by (intro "1.IH") auto
    with False "1.prems" show ?thesis
      by (simp add: to_base_step from_base_snoc)
  qed
qed

lemma to_base_digits: "2 \<le> b \<Longrightarrow> d \<in> set (to_base b n) \<Longrightarrow> d < b"
proof (induction b n rule: to_base.induct)
  case (1 b n)
  show ?case
  proof (cases "n < b")
    case True
    with "1.prems" show ?thesis by (simp add: to_base_small)
  next
    case False
    with "1.prems" have "d \<in> set (to_base b (n div b)) \<or> d = n mod b"
      by (auto simp: to_base_step)
    then show ?thesis
    proof
      assume "d \<in> set (to_base b (n div b))"
      with False "1.prems" show ?thesis by (intro "1.IH") auto
    next
      assume "d = n mod b"
      with "1.prems" show ?thesis by simp
    qed
  qed
qed

lemma to_base_from_base:
  assumes b: "2 \<le> b" and ds: "\<forall>d\<in>set ds. d < b"
  shows "to_base b (from_base b ds)
         = (if dropWhile (\<lambda>d. d = 0) ds = [] then [0] else dropWhile (\<lambda>d. d = 0) ds)"
  using ds
proof (induction ds rule: rev_induct)
  case Nil
  show ?case using b by (simp add: from_base_Nil to_base_small)
next
  case (snoc d ds)
  then have d: "d < b" and ds': "\<forall>d\<in>set ds. d < b" by simp_all
  show ?case
  proof (cases "from_base b ds = 0")
    case True
    with b have zeros: "\<forall>x\<in>set ds. x = 0" by (simp add: from_base_eq_0)
    then have "dropWhile (\<lambda>d. d = 0) (ds @ [d]) = dropWhile (\<lambda>d. d = 0) [d]"
      by (simp add: dropWhile_append2)
    with True d show ?thesis
      by (simp add: from_base_snoc to_base_small)
  next
    case False
    with b have "\<not> (\<forall>x\<in>set ds. x = 0)" by (simp add: from_base_eq_0)
    then obtain x where x: "x \<in> set ds" "x \<noteq> 0" by blast
    then have dw: "dropWhile (\<lambda>d. d = 0) (ds @ [d]) = dropWhile (\<lambda>d. d = 0) ds @ [d]"
      by (intro dropWhile_append1) auto
    from x have ne: "dropWhile (\<lambda>d. d = 0) ds \<noteq> []"
      by (auto simp: dropWhile_eq_Nil_conv)
    have ih: "to_base b (from_base b ds) = dropWhile (\<lambda>d. d = 0) ds"
      by (simp only: snoc.IH [OF ds'] ne if_False)
    from False b have ge: "b \<le> from_base b ds * b + d"
      by (cases "from_base b ds") simp_all
    have "to_base b (from_base b ds * b + d) = to_base b (from_base b ds) @ [d]"
      using b d by (simp add: to_base_step [OF b ge])
    then have "to_base b (from_base b (ds @ [d])) = dropWhile (\<lambda>d. d = 0) ds @ [d]"
      by (simp only: from_base_snoc ih)
    moreover have "dropWhile (\<lambda>d. d = 0) ds @ [d] \<noteq> []" by simp
    ultimately show ?thesis
      by (simp only: dw if_False)
  qed
qed

lemma to_base_from_base_padded:
  assumes b: "2 \<le> b" and ds: "\<forall>d\<in>set ds. d < b" and ne: "ds \<noteq> []"
  shows "replicate (length ds - length (to_base b (from_base b ds))) 0
           @ to_base b (from_base b ds) = ds"
proof -
  let ?t = "takeWhile (\<lambda>d. d = 0) ds" and ?r = "dropWhile (\<lambda>d. d = 0) ds"
  have split: "ds = ?t @ ?r" by simp
  have t: "?t = replicate (length ?t) 0"
    by (rule replicate_eqI) (auto dest: set_takeWhileD)
  have len: "length ds = length ?t + length ?r"
    by (metis split length_append)
  show ?thesis
  proof (cases "?r = []")
    case True
    with split have all: "ds = replicate (length ds) 0"
      using t by (metis append_Nil2)
    from ne obtain k where k: "length ds = Suc k" by (cases ds) auto
    have "replicate (length ds - 1) 0 @ [0 :: nat] = replicate (length ds) 0"
      unfolding k by (simp add: replicate_append_same)
    with True all show ?thesis
      by (simp add: to_base_from_base [OF b ds])
  next
    case False
    then have "to_base b (from_base b ds) = ?r"
      by (simp only: to_base_from_base [OF b ds] if_False)
    moreover have "length ds - length ?r = length ?t" using len by simp
    ultimately show ?thesis using t split by metis
  qed
qed

subsection \<open>Digits\<close>

lemma less_16_cases:
  "d < 16 \<Longrightarrow> d \<in> {0, 1, 2, 3, 4, 5, 6, 7, 8, 9, 10, 11, 12, 13, 14, 15 :: nat}"
  by simp arith

lemma digit_value_digit_char: "d < 16 \<Longrightarrow> digit_value (digit_char d) = d"
  by (drule less_16_cases) (auto simp: digit_value_def digit_char_def hex_chars_def)

lemma is_hex_digit_digit_char: "d < 16 \<Longrightarrow> is_hex_digit (digit_char d)"
  by (drule less_16_cases) (auto simp: is_hex_digit_def digit_char_def hex_chars_def)

lemma digit_char_digit_value: "is_hex_digit c \<Longrightarrow> digit_char (digit_value c) = c"
  by (auto simp: is_hex_digit_def digit_value_def digit_char_def hex_chars_def)

lemma decimal_digit_is_hex: "is_decimal_digit c \<Longrightarrow> is_hex_digit c"
  by (auto simp: is_decimal_digit_def is_hex_digit_def hex_chars_def)

lemma digit_value_decimal: "is_decimal_digit c \<Longrightarrow> digit_value c < 10"
  by (auto simp: is_decimal_digit_def digit_value_def hex_chars_def)

lemma digit_value_eq_0: "is_decimal_digit c \<Longrightarrow> digit_value c = 0 \<longleftrightarrow> c = CHR ''0''"
  by (auto simp: is_decimal_digit_def digit_value_def hex_chars_def)

lemma digit_char_0: "digit_char 0 = CHR ''0''"
  by (simp add: digit_char_def hex_chars_def)

lemma digit_value_0: "digit_value (CHR ''0'') = 0"
  by (simp add: digit_value_def hex_chars_def)

lemma map_digit_char_digit_value:
  "list_all is_decimal_digit s \<Longrightarrow> map digit_char (map digit_value s) = s"
  by (induction s) (simp_all add: digit_char_digit_value decimal_digit_is_hex)

lemma map_digit_value_digit_char:
  "\<forall>d\<in>set ds. d < 16 \<Longrightarrow> map digit_value (map digit_char ds) = ds"
  by (induction ds) (simp_all add: digit_value_digit_char)

lemma digit_values_less:
  "list_all is_decimal_digit s \<Longrightarrow> \<forall>d\<in>set (map digit_value s). d < 10"
  by (induction s) (simp_all add: digit_value_decimal)

subsection \<open>Printing after parsing, parsing after printing\<close>

lemma dropWhile_digit_value:
  "list_all is_decimal_digit s \<Longrightarrow>
   dropWhile (\<lambda>d. d = 0) (map digit_value s) = map digit_value (dropWhile (\<lambda>c. c = CHR ''0'') s)"
  by (induction s) (simp_all add: digit_value_eq_0)

lemma decimal_of_nat_of_decimal:
  assumes s: "list_all is_decimal_digit s"
  shows "decimal_of_nat (nat_of_decimal s) = strip_leading_zeros s"
proof -
  let ?r = "dropWhile (\<lambda>c. c = CHR ''0'') s"
  have r: "list_all is_decimal_digit ?r"
    using s by (auto simp: list_all_iff dest: set_dropWhileD)
  have "to_base 10 (from_base 10 (map digit_value s))
        = (if map digit_value ?r = [] then [0] else map digit_value ?r)"
    using to_base_from_base [of 10 "map digit_value s"] digit_values_less [OF s]
    by (simp only: dropWhile_digit_value [OF s])
  then show ?thesis
    by (simp add: decimal_of_nat_def nat_of_decimal_def strip_leading_zeros_def Let_def
        map_digit_char_digit_value [OF r] digit_char_0 del: map_map)
qed

lemma padded_decimal_of_nat_of_decimal:
  assumes s: "list_all is_decimal_digit s" and ne: "s \<noteq> []"
  shows "padStart (length s) (CHR ''0'') (decimal_of_nat (nat_of_decimal s)) = s"
proof -
  let ?ds = "map digit_value s"
  let ?t = "to_base 10 (from_base 10 ?ds)"
  have "replicate (length ?ds - length ?t) 0 @ ?t = ?ds"
    using digit_values_less [OF s] ne by (intro to_base_from_base_padded) simp_all
  then have "map digit_char (replicate (length ?ds - length ?t) 0 @ ?t) = map digit_char ?ds"
    by simp
  then show ?thesis
    by (simp add: padStart_def decimal_of_nat_def nat_of_decimal_def digit_char_0
        map_digit_char_digit_value [OF s] del: map_map)
qed

lemma nat_of_hex_padded: "nat_of_hex (padStart k (CHR ''0'') (hex_of_nat n)) = n"
proof -
  have d: "\<forall>d\<in>set (to_base 16 n). d < 16"
    by (auto dest: to_base_digits [rotated])
  show ?thesis
    by (simp add: nat_of_hex_def padStart_def hex_of_nat_def digit_value_0
        map_digit_value_digit_char [OF d] from_base_leading_zeros from_base_to_base
        del: map_map)
qed

lemma hex_digits_padded: "list_all is_hex_digit (padStart k (CHR ''0'') (hex_of_nat n))"
proof -
  have "is_hex_digit (CHR ''0'')"
    by (simp add: is_hex_digit_def hex_chars_def)
  moreover have "\<forall>d\<in>set (to_base 16 n). is_hex_digit (digit_char d)"
    by (auto intro: is_hex_digit_digit_char dest: to_base_digits [rotated])
  ultimately show ?thesis
    by (auto simp: padStart_def hex_of_nat_def list_all_iff)
qed

lemma padded_not_Nil: "padStart k c (hex_of_nat n) \<noteq> []"
  by (simp add: padStart_def hex_of_nat_def to_base_not_Nil)

lemma formatHexToAmount_formatBigIntToHex:
  "formatHexToAmount (formatBigIntToHex n)
   = Inr (decimal_of_nat (n div 10 ^ 18)
          @ (if strip_trailing_zeros (padStart 18 (CHR ''0'') (decimal_of_nat (n mod 10 ^ 18))) = []
             then []
             else ''.'' @ strip_trailing_zeros
                            (padStart 18 (CHR ''0'') (decimal_of_nat (n mod 10 ^ 18)))))"
  by (simp add: formatHexToAmount_def formatBigIntToHex_def nat_of_hex_padded hex_digits_padded
      padded_not_Nil Let_def)

subsection \<open>The parts of a decimal string\<close>

lemma decimal_parts_digits:
  assumes "decimal_parts s = Some (ip, fp)"
  shows "ip \<noteq> []" and "list_all is_decimal_digit ip" and "list_all is_decimal_digit fp"
  using assms
  by (auto simp: decimal_parts_def Let_def split: if_splits)

lemma dropWhile_replicate:
  "dropWhile (\<lambda>c. c = x) (replicate k x @ ys) = dropWhile (\<lambda>c. c = x) ys"
  by (induction k) simp_all

lemma strip_trailing_zeros_padEnd:
  "strip_trailing_zeros (s @ replicate k (CHR ''0'')) = strip_trailing_zeros s"
  by (simp add: strip_trailing_zeros_def dropWhile_replicate)

lemma fraction_padded:
  "length fp \<le> 18 \<Longrightarrow>
   take 18 (padEnd 18 (CHR ''0'') fp) = fp @ replicate (18 - length fp) (CHR ''0'')"
  by (simp add: padEnd_def)

lemma nat_of_decimal_append:
  "nat_of_decimal (s @ t) = nat_of_decimal s * 10 ^ length t + nat_of_decimal t"
  by (simp add: nat_of_decimal_def from_base_append)

lemma nat_of_decimal_zeros: "nat_of_decimal (replicate k (CHR ''0'')) = 0"
  using from_base_leading_zeros [of 10 k "[]"]
  by (simp add: nat_of_decimal_def digit_value_0 from_base_Nil)

lemma nat_of_decimal_less:
  "list_all is_decimal_digit s \<Longrightarrow> nat_of_decimal s < 10 ^ length s"
  using from_base_less [of "map digit_value s" 10] digit_values_less [of s]
  by (simp add: nat_of_decimal_def)

lemma strip_leading_zeros_id:
  "ip \<noteq> [] \<Longrightarrow> hd ip \<noteq> CHR ''0'' \<or> ip = ''0'' \<Longrightarrow> strip_leading_zeros ip = ip"
  by (cases ip) (auto simp: strip_leading_zeros_def)

text \<open>
  The integer that is encoded: the digits of the amount without the point, scaled to 18
  fractional digits.
\<close>

lemma formatAmountToHex_scaled:
  assumes "decimal_parts s = Some (ip, fp)" and "length fp \<le> 18"
  shows "formatAmountToHex s
         = Inr (formatBigIntToHex (nat_of_decimal (ip @ fp) * 10 ^ (18 - length fp)))"
proof -
  have "nat_of_decimal (ip @ fp @ replicate (18 - length fp) (CHR ''0''))
        = nat_of_decimal (ip @ fp) * 10 ^ (18 - length fp)"
    using nat_of_decimal_append [of "ip @ fp" "replicate (18 - length fp) (CHR ''0'')"]
    by (simp add: nat_of_decimal_zeros)
  with assms show ?thesis
    by (simp add: formatAmountToHex_def fraction_padded)
qed

lemma zeros_decimal_digits: "list_all is_decimal_digit (replicate k (CHR ''0''))"
  by (induction k) (simp_all add: is_decimal_digit_def)

lemma round_trip_without_leading_zeros:
  assumes "is_amount d"
  shows "\<exists>h. formatAmountToHex d = Inr h
             \<and> formatHexToAmount h = Inr (canonical_without_leading_zeros d)"
proof -
  from assms obtain ip fp where parts: "decimal_parts d = Some (ip, fp)" and len: "length fp \<le> 18"
    by (auto simp: is_amount_def split: option.splits)
  note digits = decimal_parts_digits [OF parts]
  let ?fp = "fp @ replicate (18 - length fp) (CHR ''0'')"
  let ?n = "nat_of_decimal (ip @ ?fp)"
  have fp_len: "length ?fp = 18" using len by simp
  have fp_digits: "list_all is_decimal_digit ?fp"
    using digits(3) by (simp add: zeros_decimal_digits)
  have fp_ne: "?fp \<noteq> []" using fp_len by auto
  have n: "?n = nat_of_decimal ip * 10 ^ 18 + nat_of_decimal ?fp"
    using nat_of_decimal_append [of ip ?fp] by (simp only: fp_len)
  have small: "nat_of_decimal ?fp < 10 ^ 18"
    using nat_of_decimal_less [OF fp_digits] by (simp only: fp_len)
  have whole: "?n div 10 ^ 18 = nat_of_decimal ip"
    using small by (simp add: n)
  have frac: "?n mod 10 ^ 18 = nat_of_decimal ?fp"
    using small by (simp add: n)
  have shown: "padStart 18 (CHR ''0'') (decimal_of_nat (nat_of_decimal ?fp)) = ?fp"
    using padded_decimal_of_nat_of_decimal [OF fp_digits fp_ne] by (simp only: fp_len)
  have hex: "formatAmountToHex d = Inr (formatBigIntToHex ?n)"
    by (simp add: formatAmountToHex_def parts fraction_padded [OF len])
  have "formatHexToAmount (formatBigIntToHex ?n) = Inr (canonical_without_leading_zeros d)"
    by (simp only: formatHexToAmount_formatBigIntToHex whole frac shown
        strip_trailing_zeros_padEnd decimal_of_nat_of_decimal [OF digits(2)])
       (simp add: canonical_without_leading_zeros_def parts)
  with hex show ?thesis by blast
qed

lemma canonical_without_leading_zeros_eq:
  assumes "is_amount d" and "\<not> leading_zero d"
  shows "canonical_without_leading_zeros d = canonical d"
proof -
  from assms(1) obtain ip fp where parts: "decimal_parts d = Some (ip, fp)"
    by (auto simp: is_amount_def split: option.splits)
  have ne: "ip \<noteq> []" by (rule decimal_parts_digits(1) [OF parts])
  from assms(2) have "\<not> (1 < length ip \<and> hd ip = CHR ''0'')"
    by (simp add: leading_zero_def parts)
  with ne have "hd ip \<noteq> CHR ''0'' \<or> ip = ''0''"
    by (cases ip) auto
  with ne have "strip_leading_zeros ip = ip"
    by (rule strip_leading_zeros_id)
  then show ?thesis
    by (simp add: canonical_without_leading_zeros_def canonical_def parts)
qed

lemma to_base_16_example:
  "to_base 16 (10 ^ 18) = [13, 14, 0, 11, 6, 11, 3, 10, 7, 6, 4, 0, 0, 0, 0]"
  by (simp add: to_base.simps)

lemma hex_of_nat_example: "hex_of_nat (10 ^ 18) = ''de0b6b3a7640000''"
  by (simp only: hex_of_nat_def to_base_16_example) (simp add: digit_char_def hex_chars_def)

lemma padStart_example:
  "padStart 64 (CHR ''0'') ''de0b6b3a7640000''
   = ''0000000000000000000000000000000000000000000000000de0b6b3a7640000''"
  by (simp add: padStart_def numeral_eq_Suc)

lemma formatBigIntToHex_example:
  "formatBigIntToHex (10 ^ 18)
   = ''0x0000000000000000000000000000000000000000000000000de0b6b3a7640000''"
  by (simp only: formatBigIntToHex_def hex_of_nat_example padStart_example) simp

lemma decimal_parts_01: "decimal_parts ''01'' = Some (''01'', [])"
  by (simp add: decimal_parts_def is_decimal_digit_def)

lemma formatAmountToHex_01:
  "formatAmountToHex ''01''
   = Inr ''0x0000000000000000000000000000000000000000000000000de0b6b3a7640000''"
proof -
  have "nat_of_decimal (''01'' @ []) * 10 ^ (18 - length ([] :: string)) = 10 ^ 18"
    by (simp add: nat_of_decimal_def from_base_def digit_value_def hex_chars_def)
  with formatAmountToHex_scaled [OF decimal_parts_01] show ?thesis
    by (simp only: formatBigIntToHex_example) simp
qed

text \<open>
  C7, as stated, fails: \<^verbatim>\<open>01\<close> is a non-negative decimal string without fractional
  digits, so stripping its insignificant trailing zeros leaves \<^verbatim>\<open>01\<close>; its hex form is
  that of the integer \<open>10 ^ 18\<close>, and converting the hex form back yields \<^verbatim>\<open>1\<close>.
\<close>

theorem codec_round_trip_leading_zero:
  "is_amount ''01''
   \<and> canonical ''01'' = ''01''
   \<and> formatAmountToHex ''01''
       = Inr ''0x0000000000000000000000000000000000000000000000000de0b6b3a7640000''
   \<and> formatHexToAmount ''0x0000000000000000000000000000000000000000000000000de0b6b3a7640000''
       = Inr ''1''
   \<and> \<not> (\<exists>h. formatAmountToHex ''01'' = Inr h
              \<and> formatHexToAmount h = Inr (canonical ''01''))"
proof -
  have a: "is_amount ''01''"
    by (simp add: is_amount_def decimal_parts_01)
  have c: "canonical ''01'' = ''01''"
    by (simp add: canonical_def decimal_parts_01 strip_trailing_zeros_def)
  have n: "canonical_without_leading_zeros ''01'' = ''1''"
    by (simp add: canonical_without_leading_zeros_def decimal_parts_01 strip_leading_zeros_def
        strip_trailing_zeros_def)
  from round_trip_without_leading_zeros [OF a] n
  have rt: "formatHexToAmount
                ''0x0000000000000000000000000000000000000000000000000de0b6b3a7640000''
              = Inr ''1''"
    by (simp add: formatAmountToHex_01)
  from a c rt show ?thesis
    by (simp add: formatAmountToHex_01)
qed

text \<open>
  C7, amended.  A non-negative decimal string with at most 18 fractional digits is converted
  to its hex form without error, and converting the hex form back yields its canonical form
  with the leading zeros of the integer part stripped as well; for a string without an
  insignificant leading zero that is the canonical form of the string.
\<close>

theorem codec_round_trip:
  assumes "is_amount d"
  shows "(\<exists>h. formatAmountToHex d = Inr h
              \<and> formatHexToAmount h = Inr (canonical_without_leading_zeros d))
         \<and> (\<not> leading_zero d \<longrightarrow>
              (\<exists>h. formatAmountToHex d = Inr h \<and> formatHexToAmount h = Inr (canonical d)))"
  using round_trip_without_leading_zeros [OF assms]
    canonical_without_leading_zeros_eq [OF assms]
  by auto

lemma decimal_parts_example: "decimal_parts ''0.00000000001'' = Some (''0'', ''00000000001'')"
  by (simp add: decimal_parts_def is_decimal_digit_def)

lemma formatAmountToHex_example:
  "formatAmountToHex ''0.00000000001''
   = Inr ''0x0000000000000000000000000000000000000000000000000000000000989680''"
proof -
  have "nat_of_decimal (''0'' @ ''00000000001'' @ replicate 7 (CHR ''0'')) = 10000000"
    by (simp only: nat_of_decimal_append nat_of_decimal_zeros length_replicate)
       (simp add: nat_of_decimal_def from_base_def digit_value_def hex_chars_def)
  then have "formatAmountToHex ''0.00000000001'' = Inr (formatBigIntToHex 10000000)"
    using fraction_padded [of "''00000000001''"]
    by (simp add: formatAmountToHex_def decimal_parts_example)
  moreover have "hex_of_nat 10000000 = ''989680''"
    by (simp add: hex_of_nat_def to_base.simps digit_char_def hex_chars_def)
  moreover have "padStart 64 (CHR ''0'') ''989680''
    = ''0000000000000000000000000000000000000000000000000000000000989680''"
    by (simp add: padStart_def numeral_eq_Suc)
  ultimately have "formatAmountToHex ''0.00000000001''
    = Inr (''0x'' @ ''0000000000000000000000000000000000000000000000000000000000989680'')"
    by (simp only: formatBigIntToHex_def)
  then show ?thesis by simp
qed

theorem codec_round_trip_witness:
  "is_amount ''0.00000000001''
   \<and> \<not> leading_zero ''0.00000000001''
   \<and> canonical ''0.00000000001'' = ''0.00000000001''
   \<and> formatAmountToHex ''0.00000000001''
       = Inr ''0x0000000000000000000000000000000000000000000000000000000000989680''
   \<and> formatHexToAmount ''0x0000000000000000000000000000000000000000000000000000000000989680''
       = Inr ''0.00000000001''"
proof -
  have a: "is_amount ''0.00000000001''"
    by (simp add: is_amount_def decimal_parts_example)
  have z: "\<not> leading_zero ''0.00000000001''"
    by (simp add: leading_zero_def decimal_parts_example)
  have c: "canonical ''0.00000000001'' = ''0.00000000001''"
    by (simp add: canonical_def decimal_parts_example strip_trailing_zeros_def)
  from codec_round_trip [OF a] z obtain h
    where "formatAmountToHex ''0.00000000001'' = Inr h"
      and "formatHexToAmount h = Inr (canonical ''0.00000000001'')"
    by blast
  with a z c show ?thesis
    by (simp add: formatAmountToHex_example)
qed

text \<open>
  C8.  The amount \<^verbatim>\<open>1\<close> is encoded as the integer \<open>10 ^ 18\<close>, exactly: the result is
  \<^verbatim>\<open>0x\<close> followed by 64 lower-case hex digits that end in \<^verbatim>\<open>0de0b6b3a7640000\<close>, and
  these digits, read as a big-endian hex numeral, are \<open>10 ^ 18\<close>.
\<close>

theorem scale_correctness:
  "formatAmountToHex ''1''
     = Inr ''0x0000000000000000000000000000000000000000000000000de0b6b3a7640000''
   \<and> nat_of_hex ''0000000000000000000000000000000000000000000000000de0b6b3a7640000'' = 10 ^ 18
   \<and> length ''0000000000000000000000000000000000000000000000000de0b6b3a7640000'' = 64"
proof -
  have parts: "decimal_parts ''1'' = Some (''1'', [])"
    by (simp add: decimal_parts_def is_decimal_digit_def)
  have "nat_of_decimal (''1'' @ replicate 18 (CHR ''0'')) = 10 ^ 18"
    by (simp only: nat_of_decimal_append nat_of_decimal_zeros length_replicate)
       (simp add: nat_of_decimal_def from_base_def digit_value_def hex_chars_def)
  then have "formatAmountToHex ''1'' = Inr (formatBigIntToHex (10 ^ 18))"
    using fraction_padded [of "[]"] by (simp add: formatAmountToHex_def parts)
  moreover have "formatBigIntToHex (10 ^ 18)
    = ''0x0000000000000000000000000000000000000000000000000de0b6b3a7640000''"
    by (simp only: formatBigIntToHex_def hex_of_nat_example padStart_example) simp
  moreover have "nat_of_hex ''0000000000000000000000000000000000000000000000000de0b6b3a7640000''
    = 10 ^ 18"
    using nat_of_hex_padded [of 64 "10 ^ 18"]
    by (simp only: hex_of_nat_example padStart_example)
  ultimately show ?thesis by simp
qed

end
